theory Spec2Isabelle
  imports Complex_Main
begin

text \<open>
  A shallow embedding of two heat-exchanger calculators: the shell-and-tube calculator
  with design and rating modes (\<open>calculateSTHX\<close>, \<open>runDesignIteration\<close>,
  \<open>performKernRating\<close> in \<open>projects/sthx/script.js\<close>) and the double-pipe pipe
  optimizer (\<open>calculateDPHX\<close> in \<open>projects/dphx/script.js\<close>), with the LMTD of the
  second double-pipe calculator. The model comes first, then the search and the
  iteration in the words of the specification, then the lemmas, then the claims.
\<close>

section \<open>JavaScript numbers\<close>

text \<open>
  A JavaScript Number is a finite value, one of the two infinities, or NaN. The special
  values follow IEEE 754, as the engine computes them. Finite results are computed
  exactly: rounding, overflow of a finite result to an infinity and the sign of zero are
  abstracted (there is one zero, and it is positive). An absent property reads as
  \<open>undefined\<close>, which every arithmetic operation and comparison of the calculators
  converts to NaN and which is falsy as NaN is; so a numeric property that is absent
  is modelled as NaN.
\<close>

datatype number = Fin real | PInf | NInf | NaN

fun jneg :: "number \<Rightarrow> number" where
  "jneg (Fin x) = Fin (- x)"
| "jneg PInf = NInf"
| "jneg NInf = PInf"
| "jneg NaN = NaN"

fun jadd :: "number \<Rightarrow> number \<Rightarrow> number" where
  "jadd NaN b = NaN"
| "jadd a NaN = NaN"
| "jadd (Fin x) (Fin y) = Fin (x + y)"
| "jadd (Fin x) PInf = PInf"
| "jadd (Fin x) NInf = NInf"
| "jadd PInf NInf = NaN"
| "jadd NInf PInf = NaN"
| "jadd PInf b = PInf"
| "jadd NInf b = NInf"

fun jmul :: "number \<Rightarrow> number \<Rightarrow> number" where
  "jmul NaN b = NaN"
| "jmul a NaN = NaN"
| "jmul (Fin x) (Fin y) = Fin (x * y)"
| "jmul (Fin x) PInf = (if x = 0 then NaN else if 0 < x then PInf else NInf)"
| "jmul (Fin x) NInf = (if x = 0 then NaN else if 0 < x then NInf else PInf)"
| "jmul PInf (Fin y) = (if y = 0 then NaN else if 0 < y then PInf else NInf)"
| "jmul NInf (Fin y) = (if y = 0 then NaN else if 0 < y then NInf else PInf)"
| "jmul PInf PInf = PInf"
| "jmul PInf NInf = NInf"
| "jmul NInf PInf = NInf"
| "jmul NInf NInf = PInf"

fun jdiv :: "number \<Rightarrow> number \<Rightarrow> number" where
  "jdiv NaN b = NaN"
| "jdiv a NaN = NaN"
| "jdiv (Fin x) (Fin y) =
     (if y = 0 then (if x = 0 then NaN else if 0 < x then PInf else NInf)
      else Fin (x / y))"
| "jdiv (Fin x) PInf = Fin 0"
| "jdiv (Fin x) NInf = Fin 0"
| "jdiv PInf (Fin y) = (if 0 \<le> y then PInf else NInf)"
| "jdiv NInf (Fin y) = (if 0 \<le> y then NInf else PInf)"
| "jdiv PInf b = NaN"
| "jdiv NInf b = NaN"

fun jabs :: "number \<Rightarrow> number" where
  "jabs (Fin x) = Fin \<bar>x\<bar>"
| "jabs PInf = PInf"
| "jabs NInf = PInf"
| "jabs NaN = NaN"

text \<open>The relational operators: every comparison with NaN is false.\<close>

fun jlt :: "number \<Rightarrow> number \<Rightarrow> bool" where
  "jlt NaN b = False"
| "jlt a NaN = False"
| "jlt (Fin x) (Fin y) = (x < y)"
| "jlt (Fin x) PInf = True"
| "jlt (Fin x) NInf = False"
| "jlt PInf b = False"
| "jlt NInf NInf = False"
| "jlt NInf b = True"

definition jeq :: "number \<Rightarrow> number \<Rightarrow> bool" where
  \<comment> \<open>\<open>a === b\<close> on two numbers\<close>
  "jeq a b = (a = b \<and> a \<noteq> NaN)"

instantiation number :: "{plus, minus, uminus, times, divide, abs, ord}"
begin

definition plus_number_def: "a + b = jadd a b"
definition uminus_number_def: "- a = jneg a"
definition minus_number_def: "a - b = jadd a (jneg b)"
definition times_number_def: "a * b = jmul a b"
definition divide_number_def: "a div b = jdiv a b"
definition abs_number_def: "\<bar>a\<bar> = jabs a"
definition less_number_def: "a < b = jlt a b"
definition less_eq_number_def: "a \<le> b = (jlt a b \<or> jeq a b)"

instance ..

end

definition truthy :: "number \<Rightarrow> bool" where
  \<comment> \<open>ToBoolean: 0 and NaN (and \<open>undefined\<close>) are falsy\<close>
  "truthy a = (a \<noteq> NaN \<and> a \<noteq> Fin 0)"

definition jor :: "number \<Rightarrow> number \<Rightarrow> number" where
  \<comment> \<open>\<open>a || b\<close>\<close>
  "jor a b = (if truthy a then a else b)"

definition isNaN :: "number \<Rightarrow> bool" where
  "isNaN a = (a = NaN)"

fun jsqrt :: "number \<Rightarrow> number" where
  "jsqrt (Fin x) = (if x < 0 then NaN else Fin (sqrt x))"
| "jsqrt PInf = PInf"
| "jsqrt NInf = NaN"
| "jsqrt NaN = NaN"

fun jlog :: "number \<Rightarrow> number" where
  "jlog (Fin x) = (if x < 0 then NaN else if x = 0 then NInf else Fin (ln x))"
| "jlog PInf = PInf"
| "jlog NInf = NaN"
| "jlog NaN = NaN"

fun jexp :: "number \<Rightarrow> number" where
  "jexp (Fin x) = Fin (exp x)"
| "jexp PInf = PInf"
| "jexp NInf = Fin 0"
| "jexp NaN = NaN"

fun jceil :: "number \<Rightarrow> number" where
  "jceil (Fin x) = Fin (of_int \<lceil>x\<rceil>)"
| "jceil a = a"

fun jfloor :: "number \<Rightarrow> number" where
  "jfloor (Fin x) = Fin (of_int \<lfloor>x\<rfloor>)"
| "jfloor a = a"

text \<open>
  \<open>Math.pow(a, e)\<close>. Every exponent in the calculators is a finite literal, so the
  exponent is a real; a negative base has a power only for an integer exponent.
\<close>

definition is_int :: "real \<Rightarrow> bool" where
  "is_int e = (e = of_int \<lfloor>e\<rfloor>)"

fun jpow :: "number \<Rightarrow> real \<Rightarrow> number" where
  "jpow NaN e = (if e = 0 then Fin 1 else NaN)"
| "jpow PInf e = (if e = 0 then Fin 1 else if 0 < e then PInf else Fin 0)"
| "jpow NInf e =
     (if e = 0 then Fin 1 else if e < 0 then Fin 0
      else if is_int e \<and> odd \<lfloor>e\<rfloor> then NInf else PInf)"
| "jpow (Fin x) e =
     (if e = 0 then Fin 1
      else if 0 < x then Fin (x powr e)
      else if x = 0 then (if 0 < e then Fin 0 else PInf)
      else if is_int e then Fin (x powi \<lfloor>e\<rfloor>) else NaN)"

definition parseFloat :: "number \<Rightarrow> number" where
  \<comment> \<open>on a Number (or \<open>undefined\<close>) \<open>parseFloat\<close> gives the number back\<close>
  "parseFloat a = a"


section \<open>Shell-and-tube calculator (design and rating modes)\<close>

text \<open>
  The fluid objects \<open>hot\<close> and \<open>cold\<close> of the input, with the properties the calculator
  reads. A value of type \<open>fluid option\<close> is \<open>None\<close> where the object itself is
  \<open>undefined\<close> or \<open>null\<close>: reading a property of it throws a TypeError.
\<close>

record fluid =
  f_m :: number
  f_Tin :: number
  f_Tout :: number
  f_cp :: number
  f_rho :: number
  f_mu :: number
  f_k :: number
  f_P :: number
  f_fouling :: number

datatype exn = TypeError

text \<open>
  \<open>inputData\<close>. The three numeric properties that \<open>defaults\<close> also has are options:
  \<open>None\<close> is an absent property, which the spread \<open>{...defaults, ...inputData}\<close>
  leaves at its default. A string property that is absent compares unequal to every
  literal of the code, as the empty string does.
\<close>

record sthx_input =
  in_mode :: string
  in_allocation_mode :: string
  in_allocation :: string
  in_hot :: "fluid option"
  in_cold :: "fluid option"
  in_U_guess :: "number option"
  in_tube_length :: "number option"
  in_tube_passes :: "number option"
  in_tube_od :: number
  in_tube_id :: number
  in_tube_pitch :: number
  in_pitch_type :: string
  in_baffle_spacing :: number
  in_baffles_n :: number
  in_shell_ID :: number
  in_total_tubes :: number
  in_Rf_t :: number
  in_Rf_s :: number

text \<open>The merged object \<open>D\<close>, also used as the \<open>Geom\<close> argument of the rating.\<close>

record geom =
  mode :: string
  allocation_mode :: string
  allocation :: string
  hot :: "fluid option"
  cold :: "fluid option"
  U_guess :: number
  tube_length :: number
  tube_passes :: number
  tube_od :: number
  tube_id :: number
  tube_pitch :: number
  pitch_type :: string
  baffle_spacing :: number
  baffles_n :: number
  shell_ID :: number
  total_tubes :: number
  Rf_t :: number
  Rf_s :: number

definition merge_defaults :: "sthx_input \<Rightarrow> geom" where
  "merge_defaults i =
     \<lparr> mode = in_mode i, allocation_mode = in_allocation_mode i,
       allocation = in_allocation i, hot = in_hot i, cold = in_cold i,
       U_guess = (case in_U_guess i of None \<Rightarrow> Fin 500 | Some u \<Rightarrow> u),
       tube_length = (case in_tube_length i of None \<Rightarrow> Fin 3 | Some l \<Rightarrow> l),
       tube_passes = (case in_tube_passes i of None \<Rightarrow> Fin 2 | Some n \<Rightarrow> n),
       tube_od = in_tube_od i, tube_id = in_tube_id i, tube_pitch = in_tube_pitch i,
       pitch_type = in_pitch_type i, baffle_spacing = in_baffle_spacing i,
       baffles_n = in_baffles_n i, shell_ID = in_shell_ID i,
       total_tubes = in_total_tubes i, Rf_t = in_Rf_t i, Rf_s = in_Rf_s i \<rparr>"

text \<open>
  A line of the log. The lines are template strings; the model keeps the values a line
  is built from (an iteration line: \<open>i + 1\<close>, the assumed U, the shell size in mm, the
  calculated U, the error in percent) and leaves their formatting by \<open>toFixed\<close> out.
\<close>

datatype log_line =
  AutoAllocation string
| StartingDesign
| Iter nat number number number number
| MaxIterReached
| RunningRating

record geometry_out =
  g_Ds :: number
  g_Nt :: number
  g_B :: number
  g_Lt :: number
  g_do_t :: number

record rating =
  r_U_clean :: number
  r_U_dirty :: number
  r_h_s :: number
  r_h_t :: number
  r_dP_s :: number
  r_dP_t :: number
  r_Re_s :: number
  r_Re_t :: number
  r_Vt :: number
  r_Vs :: number
  r_Area_Required :: number
  r_Area_Provided :: number
  r_Overdesign_Pct :: number
  r_LMTD :: number
  r_Q :: number
  r_Geometry :: geometry_out

text \<open>
  What the calculator returns: the object \<open>{error: ...}\<close>, or a rating with its log and,
  in design mode, the \<open>converged\<close> flag (\<open>None\<close> where the property is not set).
\<close>

datatype sthx_result =
  ErrorResult string
| Rated rating "bool option" "log_line list"

definition TEMA_shells :: "number list" where
  "TEMA_shells = map (\<lambda>d. Fin d * Fin 0.0254) [8, 10, 12, 14, 16, 18, 20, 24, 30, 36, 42, 48, 60]"

definition calculateDuty :: "fluid \<Rightarrow> fluid \<Rightarrow> number" where
  "calculateDuty Hot Cold =
     (if truthy (f_m Hot) \<and> truthy (f_Tin Hot) \<and> truthy (f_Tout Hot)
        then f_m Hot * f_cp Hot * (f_Tin Hot - f_Tout Hot)
      else if truthy (f_m Cold) \<and> truthy (f_Tin Cold) \<and> truthy (f_Tout Cold)
        then f_m Cold * f_cp Cold * (f_Tout Cold - f_Tin Cold)
      else Fin 100000)"

definition calculateDuty_opt :: "fluid option \<Rightarrow> fluid option \<Rightarrow> exn + number" where
  \<comment> \<open>\<open>Hot.m\<close> is read first; \<open>Cold\<close> is read only when the hot side is incomplete\<close>
  "calculateDuty_opt Hot Cold =
     (case Hot of None \<Rightarrow> Inl TypeError
      | Some h \<Rightarrow>
         if truthy (f_m h) \<and> truthy (f_Tin h) \<and> truthy (f_Tout h)
           then Inr (f_m h * f_cp h * (f_Tin h - f_Tout h))
         else (case Cold of None \<Rightarrow> Inl TypeError
               | Some c \<Rightarrow> Inr (calculateDuty h c)))"

definition calculateLMTD :: "fluid \<Rightarrow> fluid \<Rightarrow> number \<Rightarrow> number \<times> number" where
  \<comment> \<open>the pair \<open>(LMTD, Ft)\<close>\<close>
  "calculateLMTD Hot Cold passes =
     (let dt1 = f_Tin Hot - f_Tout Cold;
          dt2 = f_Tout Hot - f_Tin Cold;
          lmtd = (dt1 - dt2) div jlog (dt1 div dt2)
      in (lmtd * Fin 0.9, Fin 0.9))"

definition performKernRating :: "fluid \<Rightarrow> fluid \<Rightarrow> geom \<Rightarrow> rating" where
  "performKernRating ShellFluid TubeFluid Geom =
     (let Ds = shell_ID Geom;
          do_t = tube_od Geom;
          di_t = tube_id Geom;
          Lt = tube_length Geom;
          Nt = total_tubes Geom;
          Np = tube_passes Geom;
          Pitch = tube_pitch Geom;
          B = jor (baffle_spacing Geom) (Ds * Fin 0.4);
          Nb = jor (baffles_n Geom) (jceil (Lt div B) - Fin 1);
          a_t = (Fin pi * di_t * di_t div Fin 4) * (Nt div Np);
          m_t = f_m TubeFluid;
          Gt = m_t div a_t;
          Vt = Gt div f_rho TubeFluid;
          Re_t = (f_rho TubeFluid * Vt * di_t) div f_mu TubeFluid;
          Pr_t = (f_cp TubeFluid * f_mu TubeFluid) div f_k TubeFluid;
          Nu_t = Fin 0.023 * jpow Re_t 0.8 * jpow Pr_t 0.33;
          h_t = (Nu_t * f_k TubeFluid) div di_t;
          f_t = Fin 0.046 * jpow Re_t (- 0.2);
          dP_t_frict = (Fin 4 * f_t * Lt * Np div di_t) * (Fin 0.5 * f_rho TubeFluid * Vt * Vt);
          dP_t_return = Fin 4 * Np * (Fin 0.5 * f_rho TubeFluid * Vt * Vt);
          dP_t = dP_t_frict + dP_t_return;
          De = (if pitch_type Geom = ''square''
                then (Fin 4 * (jpow Pitch 2 - (Fin pi div Fin 4) * jpow do_t 2)) div (Fin pi * do_t)
                else (Fin 4 * (Fin 0.5 * Fin 0.866 * jpow Pitch 2
                               - Fin 0.5 * (Fin pi div Fin 4) * jpow do_t 2))
                     div (Fin 0.5 * Fin pi * do_t));
          Clearance = Pitch - do_t;
          As = (Ds * Clearance * B) div Pitch;
          Gs = f_m ShellFluid div As;
          Vs = Gs div f_rho ShellFluid;
          Re_s = (Gs * De) div f_mu ShellFluid;
          Pr_s = (f_cp ShellFluid * f_mu ShellFluid) div f_k ShellFluid;
          Nu_s = Fin 0.36 * jpow Re_s 0.55 * jpow Pr_s 0.33;
          h_s = (Nu_s * f_k ShellFluid) div De;
          f_s = jexp (Fin 0.576 - Fin 0.19 * jlog Re_s);
          dP_s = (f_s * jpow Gs 2 * Ds * (Nb + Fin 1)) div (Fin 2 * f_rho ShellFluid * De);
          Rft = parseFloat (jor (Rf_t Geom) (Fin 0));
          Rfs = parseFloat (jor (Rf_s Geom) (Fin 0));
          Kw = Fin 50;
          Inv_U_clean = (Fin 1 div h_s) + (do_t div di_t) * (Fin 1 div h_t)
                        + (do_t * jlog (do_t div di_t) div (Fin 2 * Kw));
          Inv_U_dirty = Inv_U_clean + Rfs + (do_t div di_t) * Rft;
          U_clean = Fin 1 div Inv_U_clean;
          U_dirty = Fin 1 div Inv_U_dirty;
          Q = calculateDuty ShellFluid TubeFluid;
          LMTD = fst (calculateLMTD ShellFluid TubeFluid Np);
          A_req = Q div (U_dirty * LMTD);
          A_prov = Fin pi * do_t * Lt * Nt;
          Overdesign = ((A_prov - A_req) div A_req) * Fin 100
      in \<lparr> r_U_clean = U_clean, r_U_dirty = U_dirty, r_h_s = h_s, r_h_t = h_t,
           r_dP_s = dP_s, r_dP_t = dP_t, r_Re_s = Re_s, r_Re_t = Re_t,
           r_Vt = Vt, r_Vs = Vs, r_Area_Required = A_req, r_Area_Provided = A_prov,
           r_Overdesign_Pct = Overdesign, r_LMTD = LMTD, r_Q = Q,
           r_Geometry = \<lparr> g_Ds = Ds, g_Nt = Nt, g_B = B, g_Lt = Lt, g_do_t = do_t \<rparr> \<rparr>)"


subsection \<open>The design iteration\<close>

definition MaxIter :: nat where
  "MaxIter = 20"

definition estimateShell :: "geom \<Rightarrow> number \<Rightarrow> number \<Rightarrow> number \<Rightarrow> number" where
  \<comment> \<open>steps A to C of an iteration: \<open>Ds_est\<close> from the assumed U\<close>
  "estimateShell D Q LMTD U_assumed =
     (let A_req = Q div (U_assumed * LMTD);
          Nt_ideal = A_req div (Fin pi * tube_od D * tube_length D);
          Nt = jceil (Nt_ideal * Fin 1.05)
      in tube_pitch D * jsqrt Nt * Fin 1.1)"

definition standardShell :: "number \<Rightarrow> number" where
  \<comment> \<open>\<open>shells.find(s => s >= Ds_est) || shells[shells.length - 1]\<close>\<close>
  "standardShell Ds_est =
     (case find (\<lambda>s. Ds_est \<le> s) TEMA_shells of
        Some s \<Rightarrow> jor s (last TEMA_shells)
      | None \<Rightarrow> last TEMA_shells)"

definition trialGeometry :: "geom \<Rightarrow> number \<Rightarrow> geom" where
  \<comment> \<open>the object \<open>{...D, shell_ID, total_tubes, baffle_spacing}\<close> that is rated\<close>
  "trialGeometry D Ds_std =
     D\<lparr> shell_ID := Ds_std,
        total_tubes := jfloor (Fin 0.785 * jpow (Ds_std div tube_pitch D) 2),
        baffle_spacing := Ds_std * Fin 0.4 \<rparr>"

definition trialShell :: "geom \<Rightarrow> number \<Rightarrow> number \<Rightarrow> number \<Rightarrow> number" where
  "trialShell D Q LMTD U_assumed = standardShell (estimateShell D Q LMTD U_assumed)"

definition trialRating :: "fluid \<Rightarrow> fluid \<Rightarrow> geom \<Rightarrow> number \<Rightarrow> number \<Rightarrow> number \<Rightarrow> rating" where
  "trialRating S T D Q LMTD U_assumed =
     performKernRating S T (trialGeometry D (trialShell D Q LMTD U_assumed))"

definition trialError :: "fluid \<Rightarrow> fluid \<Rightarrow> geom \<Rightarrow> number \<Rightarrow> number \<Rightarrow> number \<Rightarrow> number" where
  \<comment> \<open>\<open>error = (U_calc - U_assumed) / U_assumed\<close>\<close>
  "trialError S T D Q LMTD U_assumed =
     (r_U_clean (trialRating S T D Q LMTD U_assumed) - U_assumed) div U_assumed"

definition converged :: "number \<Rightarrow> bool" where
  \<comment> \<open>the test of the loop on the error: \<open>Math.abs(error) < 0.1\<close>\<close>
  "converged err = (\<bar>err\<bar> < Fin 0.1)"

definition converges_at :: "fluid \<Rightarrow> fluid \<Rightarrow> geom \<Rightarrow> number \<Rightarrow> number \<Rightarrow> number \<Rightarrow> bool" where
  \<comment> \<open>the test of the loop in the iteration that assumes \<open>U_assumed\<close>\<close>
  "converges_at S T D Q LMTD U_assumed = converged (trialError S T D Q LMTD U_assumed)"

definition iterLine :: "fluid \<Rightarrow> fluid \<Rightarrow> geom \<Rightarrow> number \<Rightarrow> number \<Rightarrow> nat \<Rightarrow> number \<Rightarrow> log_line" where
  "iterLine S T D Q LMTD i U_assumed =
     Iter (i + 1) U_assumed (trialShell D Q LMTD U_assumed * Fin 1000)
       (r_U_clean (trialRating S T D Q LMTD U_assumed))
       (trialError S T D Q LMTD U_assumed * Fin 100)"

text \<open>
  The \<open>for\<close> loop of \<open>runDesignIteration\<close>, from iteration \<open>i\<close> with the assumed U and
  the log so far. It returns \<open>bestDesign\<close> (\<open>None\<close> for \<open>null\<close>) and the log.
\<close>

function designLoop ::
  "fluid \<Rightarrow> fluid \<Rightarrow> geom \<Rightarrow> number \<Rightarrow> number \<Rightarrow> nat \<Rightarrow> number \<Rightarrow> log_line list
     \<Rightarrow> rating option \<times> log_line list" where
  "designLoop S T D Q LMTD i U_assumed logs =
     (if i < MaxIter then
        (if \<bar>trialError S T D Q LMTD U_assumed\<bar> < Fin 0.1
         then (Some (trialRating S T D Q LMTD U_assumed),
               logs @ [iterLine S T D Q LMTD i U_assumed])
         else designLoop S T D Q LMTD (i + 1)
                (Fin 0.5 * U_assumed + Fin 0.5 * r_U_clean (trialRating S T D Q LMTD U_assumed))
                (logs @ [iterLine S T D Q LMTD i U_assumed]))
      else (None, logs))"
  by pat_completeness auto
termination
  by (relation "measure (\<lambda>(S, T, D, Q, LMTD, i, U, logs). MaxIter - i)") auto

definition runDesignIteration ::
  "fluid option \<Rightarrow> fluid option \<Rightarrow> geom \<Rightarrow> log_line list \<Rightarrow> exn + sthx_result" where
  "runDesignIteration ShellFluid TubeFluid D logs =
     (let logs1 = logs @ [StartingDesign];
          U_assumed = jor (parseFloat (U_guess D)) (Fin 500)
      in case calculateDuty_opt ShellFluid TubeFluid of
           Inl e \<Rightarrow> Inl e
         | Inr Q \<Rightarrow>
            if \<not> truthy Q then Inr (ErrorResult ''Insufficient thermal data to calc Duty (Q).'')
            else (case (hot D, cold D, ShellFluid, TubeFluid) of
                    (Some h, Some c, Some S, Some T) \<Rightarrow>
                      (let LMTD = fst (calculateLMTD h c (tube_passes D))
                       in case designLoop S T D Q LMTD 0 U_assumed logs1 of
                            (Some bestDesign, logs2) \<Rightarrow> Inr (Rated bestDesign (Some True) logs2)
                          | (None, logs2) \<Rightarrow>
                              Inr (Rated (performKernRating S T
                                            (D\<lparr>shell_ID := Fin 0.6, total_tubes := Fin 200\<rparr>))
                                     (Some False) (logs2 @ [MaxIterReached])))
                  | _ \<Rightarrow> Inl TypeError))"

definition runRatingCalculation ::
  "fluid option \<Rightarrow> fluid option \<Rightarrow> geom \<Rightarrow> log_line list \<Rightarrow> exn + sthx_result" where
  "runRatingCalculation ShellFluid TubeFluid D logs =
     (case (ShellFluid, TubeFluid) of
        (Some S, Some T) \<Rightarrow> Inr (Rated (performKernRating S T D) None (logs @ [RunningRating]))
      | _ \<Rightarrow> Inl TypeError)"

definition autoAllocation :: "fluid \<Rightarrow> fluid \<Rightarrow> string \<times> string" where
  \<comment> \<open>the allocation chosen in auto mode, and its reason\<close>
  "autoAllocation h c =
     (let h_visc = Fin 0.1 < f_mu h;
          c_visc = Fin 0.1 < f_mu c;
          h_pres = Fin 20 < f_P h;
          c_pres = Fin 20 < f_P c
      in if h_visc \<and> \<not> c_visc then (''hot_shell'', ''Hot fluid is viscous -> Shell Side'')
         else if c_visc \<and> \<not> h_visc then (''cold_shell'', ''Cold fluid is viscous -> Shell Side'')
         else if h_pres \<and> \<not> c_pres then (''cold_shell'', ''Hot fluid High Pressure -> Tube Side'')
         else if c_pres \<and> \<not> h_pres then (''hot_shell'', ''Cold fluid High Pressure -> Tube Side'')
         else if f_fouling c * Fin 5 < f_fouling h
           then (''cold_shell'', ''Hot fluid High Fouling -> Tube Side'')
         else (''hot_shell'', ''No critical constraints, defaulting Hot=Shell''))"

definition dispatchMode :: "geom \<Rightarrow> log_line list \<Rightarrow> exn + sthx_result" where
  \<comment> \<open>sections 2 (side assignment) and 3 of \<open>calculateSTHX\<close>\<close>
  "dispatchMode D logs =
     (let ShellSide = (if allocation D = ''hot_shell'' then hot D else cold D);
          TubeSide = (if allocation D = ''hot_shell'' then cold D else hot D)
      in if mode D = ''design'' then runDesignIteration ShellSide TubeSide D logs
         else runRatingCalculation ShellSide TubeSide D logs)"

definition calculateSTHX :: "sthx_input \<Rightarrow> exn + sthx_result" where
  "calculateSTHX inputData =
     (let D = merge_defaults inputData
      in if allocation_mode D = ''auto'' then
           (case (hot D, cold D) of
              (Some h, Some c) \<Rightarrow>
                dispatchMode (D\<lparr>allocation := fst (autoAllocation h c)\<rparr>)
                  [AutoAllocation (snd (autoAllocation h c))]
            | _ \<Rightarrow> Inl TypeError)
         else dispatchMode D [])"


section \<open>Double-pipe pipe-selection optimizer\<close>

record pipe =
  p_name :: string
  p_od :: number
  p_id :: number

definition STANDARD_PIPES :: "pipe list" where
  "STANDARD_PIPES =
     [\<lparr>p_name = ''1/2 inch'', p_od = Fin 0.0213, p_id = Fin 0.0158\<rparr>,
      \<lparr>p_name = ''3/4 inch'', p_od = Fin 0.0267, p_id = Fin 0.0209\<rparr>,
      \<lparr>p_name = ''1 inch'', p_od = Fin 0.0334, p_id = Fin 0.0266\<rparr>,
      \<lparr>p_name = ''1.25 inch'', p_od = Fin 0.0422, p_id = Fin 0.0351\<rparr>,
      \<lparr>p_name = ''1.5 inch'', p_od = Fin 0.0483, p_id = Fin 0.0409\<rparr>,
      \<lparr>p_name = ''2 inch'', p_od = Fin 0.0603, p_id = Fin 0.0525\<rparr>,
      \<lparr>p_name = ''2.5 inch'', p_od = Fin 0.0730, p_id = Fin 0.0627\<rparr>,
      \<lparr>p_name = ''3 inch'', p_od = Fin 0.0889, p_id = Fin 0.0779\<rparr>,
      \<lparr>p_name = ''4 inch'', p_od = Fin 0.1143, p_id = Fin 0.1023\<rparr>,
      \<lparr>p_name = ''6 inch'', p_od = Fin 0.1683, p_id = Fin 0.1541\<rparr>]"

text \<open>
  The argument \<open>data\<close>, with the properties the optimizer reads and
  \<open>allowable_dp_ann\<close>, which the form of the other double-pipe calculator also sends. The
  properties hold Numbers; an absent one is NaN (see above).
\<close>

record dphx_data =
  d_m_h :: number
  d_T_h_in :: number
  d_T_h_out :: number
  d_m_c :: number
  d_T_c_in :: number
  d_T_c_out :: number
  d_Cp_h :: number
  d_rho_h :: number
  d_mu_h :: number
  d_k_h :: number
  d_Cp_c :: number
  d_rho_c :: number
  d_mu_c :: number
  d_k_c :: number
  d_flow_type :: number
  d_Rf_h :: number
  d_Rf_c :: number
  d_allowable_dp_inner :: number
  d_allowable_dp_ann :: number

definition parseInt :: "number \<Rightarrow> number" where
  \<comment> \<open>on a Number \<open>parseInt\<close> reads the digits the number prints with, up to the first
      character that is not a digit: the integer part where the number prints in decimal
      notation (a magnitude from 1e-6 up to 1e21), the leading digit where it prints in
      exponent notation\<close>
  "parseInt a =
     (case a of
        Fin x \<Rightarrow>
          if x = 0 then Fin 0
          else if 1 / 1000000 \<le> \<bar>x\<bar> \<and> \<bar>x\<bar> < 10 ^ 21
            then Fin (of_int (if 0 \<le> x then \<lfloor>x\<rfloor> else \<lceil>x\<rceil>))
          else Fin (sgn x * of_int \<lfloor>\<bar>x\<bar> / 10 powr of_int \<lfloor>log 10 \<bar>x\<bar>\<rfloor>\<rfloor>)
      | _ \<Rightarrow> NaN)"

text \<open>The variables of the function after section 2 (energy balance and unknowns).\<close>

record balance =
  b_m_h :: number
  b_m_c :: number
  b_T_h_out :: number
  b_T_c_out :: number
  b_Q :: number

definition energyBalance :: "dphx_data \<Rightarrow> string + balance" where
  "energyBalance data =
     (let m_h = parseFloat (d_m_h data);
          T_h_in = parseFloat (d_T_h_in data);
          T_h_out = parseFloat (jor (d_T_h_out data) (Fin (- 1)));
          m_c = parseFloat (d_m_c data);
          T_c_in = parseFloat (d_T_c_in data);
          T_c_out = parseFloat (jor (d_T_c_out data) (Fin (- 1)));
          Cp_h = parseFloat (d_Cp_h data) * Fin 1000;
          Cp_c = parseFloat (d_Cp_c data) * Fin 1000
      in if isNaN m_h \<and> isNaN m_c then Inl ''Provide at least one Mass Flow Rate.''
         else if isNaN m_h \<or> isNaN m_c then
           (if jeq T_h_out (Fin (- 1)) \<or> jeq T_c_out (Fin (- 1))
              then Inl ''To find Mass Flow, ALL 4 temperatures must be known.''
            else if isNaN m_h then
              (let Q = m_c * Cp_c * (T_c_out - T_c_in)
               in Inr \<lparr>b_m_h = Q div (Cp_h * (T_h_in - T_h_out)), b_m_c = m_c,
                        b_T_h_out = T_h_out, b_T_c_out = T_c_out, b_Q = Q\<rparr>)
            else
              (let Q = m_h * Cp_h * (T_h_in - T_h_out)
               in Inr \<lparr>b_m_h = m_h, b_m_c = Q div (Cp_c * (T_c_out - T_c_in)),
                        b_T_h_out = T_h_out, b_T_c_out = T_c_out, b_Q = Q\<rparr>))
         else if jeq T_h_out (Fin (- 1)) then
           (let Q = m_c * Cp_c * (T_c_out - T_c_in)
            in Inr \<lparr>b_m_h = m_h, b_m_c = m_c, b_T_h_out = T_h_in - Q div (m_h * Cp_h),
                     b_T_c_out = T_c_out, b_Q = Q\<rparr>)
         else if jeq T_c_out (Fin (- 1)) then
           (let Q = m_h * Cp_h * (T_h_in - T_h_out)
            in Inr \<lparr>b_m_h = m_h, b_m_c = m_c, b_T_h_out = T_h_out,
                     b_T_c_out = T_c_in + Q div (m_c * Cp_c), b_Q = Q\<rparr>)
         else
           (let Qh = m_h * Cp_h * (T_h_in - T_h_out);
                Qc = m_c * Cp_c * (T_c_out - T_c_in)
            in if Fin 0.05 * Qh < \<bar>Qh - Qc\<bar> then Inl ''Energy Balance Mismatch (>5%)''
               else Inr \<lparr>b_m_h = m_h, b_m_c = m_c, b_T_h_out = T_h_out,
                         b_T_c_out = T_c_out, b_Q = Qh\<rparr>))"

definition lmtd_dphx :: "number \<Rightarrow> number \<Rightarrow> string + number" where
  \<comment> \<open>the check of \<open>dt1\<close>, \<open>dt2\<close> and the LMTD of the optimizer\<close>
  "lmtd_dphx dt1 dt2 =
     (if dt1 \<le> Fin 0 \<or> dt2 \<le> Fin 0 then Inl ''Invalid LMTD (Check Temps)''
      else Inr (if jeq dt1 dt2 then dt1 else (dt1 - dt2) div jlog (dt1 div dt2)))"

definition temperatures :: "dphx_data \<Rightarrow> balance \<Rightarrow> string + number" where
  \<comment> \<open>the temperature-cross check and the LMTD\<close>
  "temperatures data b =
     (let T_h_in = parseFloat (d_T_h_in data);
          T_c_in = parseFloat (d_T_c_in data);
          flow_type = parseInt (jor (d_flow_type data) (Fin 1))
      in if jeq flow_type (Fin 1) \<and> (b_T_h_out b < T_c_in \<or> T_h_in < b_T_c_out b)
           then Inl ''Temp Cross in Counter-Current!''
         else if jeq flow_type (Fin 1)
           then lmtd_dphx (T_h_in - b_T_c_out b) (b_T_h_out b - T_c_in)
         else lmtd_dphx (T_h_in - T_c_in) (b_T_h_out b - b_T_c_out b))"

text \<open>What the search reads: the data, the balance and the LMTD.\<close>

record env =
  e_data :: dphx_data
  e_bal :: balance
  e_LMTD :: number

record design =
  inner_pipe :: pipe
  outer_pipe :: pipe
  o_U :: number
  o_A_req :: number
  o_L_req :: number
  o_dP_in :: number
  o_dP_ann :: number
  o_Re_in :: number
  o_Re_ann :: number
  o_h_in :: number
  o_h_ann :: number
  o_v_in :: number
  o_v_ann :: number
  o_Q :: number
  o_LMTD :: number
  o_m_h :: number
  o_m_c :: number
  o_T_h_out :: number
  o_T_c_out :: number

datatype trial_line = Trial string string number number number

datatype dphx_result =
  DError string "trial_line list option"
| Success design "trial_line list"

definition max_dp :: "dphx_data \<Rightarrow> number" where
  "max_dp data = parseFloat (jor (d_allowable_dp_inner data) (Fin 70000))"

definition clearance_ok :: "pipe \<Rightarrow> pipe \<Rightarrow> bool" where
  \<comment> \<open>the pair is not skipped by \<open>if ((Di - do_in) < 0.005) continue\<close>\<close>
  "clearance_ok inner outer = (\<not> (p_id outer - p_od inner < Fin 0.005))"

definition evalPair :: "env \<Rightarrow> pipe \<Rightarrow> pipe \<Rightarrow> design" where
  \<comment> \<open>the body of the inner loop from the geometry to the pressure drops\<close>
  "evalPair E inner outer =
     (let data = e_data E;
          m_h = b_m_h (e_bal E); m_c = b_m_c (e_bal E);
          Q = b_Q (e_bal E); LMTD = e_LMTD E;
          Cp_h = parseFloat (d_Cp_h data) * Fin 1000;
          rho_h = parseFloat (d_rho_h data);
          mu_h = parseFloat (d_mu_h data);
          k_h = parseFloat (d_k_h data);
          Cp_c = parseFloat (d_Cp_c data) * Fin 1000;
          rho_c = parseFloat (d_rho_c data);
          mu_c = parseFloat (d_mu_c data);
          k_c = parseFloat (d_k_c data);
          foul_h = parseFloat (jor (d_Rf_h data) (Fin 0.0002));
          foul_c = parseFloat (jor (d_Rf_c data) (Fin 0.0002));
          di = p_id inner; do_in = p_od inner; Di = p_id outer;
          A_inner = Fin pi * di * di div Fin 4;
          A_ann = Fin pi * (Di * Di - do_in * do_in) div Fin 4;
          De_ann = (Di * Di - do_in * do_in) div do_in;
          v_inner = m_h div (rho_h * A_inner);
          v_ann = m_c div (rho_c * A_ann);
          Re_inner = (rho_h * v_inner * di) div mu_h;
          Re_ann = (rho_c * v_ann * De_ann) div mu_c;
          Pr_h = (Cp_h * mu_h) div k_h;
          Pr_c = (Cp_c * mu_c) div k_c;
          Nu_inner = Fin 0.023 * jpow Re_inner 0.8 * jpow Pr_h 0.33;
          Nu_ann = Fin 0.023 * jpow Re_ann 0.8 * jpow Pr_c 0.33;
          hi = Nu_inner * k_h div di;
          ho = Nu_ann * k_c div De_ann;
          U = Fin 1 div ((do_in div di) * (Fin 1 div hi) + (do_in div di) * foul_h
                         + foul_c + (Fin 1 div ho));
          A_req = Q div (U * LMTD);
          L_req = A_req div (Fin pi * do_in);
          f_in = Fin 0.316 * jpow Re_inner (- 0.25);
          f_ann = Fin 0.316 * jpow Re_ann (- 0.25);
          dP_in = f_in * (L_req div di) * Fin 0.5 * rho_h * v_inner * v_inner;
          Dh_ann = Di - do_in;
          dP_ann = f_ann * (L_req div Dh_ann) * Fin 0.5 * rho_c * v_ann * v_ann
      in \<lparr> inner_pipe = inner, outer_pipe = outer, o_U = U, o_A_req = A_req,
           o_L_req = L_req, o_dP_in = dP_in, o_dP_ann = dP_ann, o_Re_in = Re_inner,
           o_Re_ann = Re_ann, o_h_in = hi, o_h_ann = ho, o_v_in = v_inner,
           o_v_ann = v_ann, o_Q = Q, o_LMTD = LMTD, o_m_h = m_h, o_m_c = m_c,
           o_T_h_out = b_T_h_out (e_bal E), o_T_c_out = b_T_c_out (e_bal E) \<rparr>)"

definition velocity_ok :: "design \<Rightarrow> bool" where
  "velocity_ok d = (o_v_in d < Fin 4.0 \<and> o_v_ann d < Fin 4.0)"

definition dp_ok :: "env \<Rightarrow> design \<Rightarrow> bool" where
  "dp_ok E d = (o_dP_in d < max_dp (e_data E) \<and> o_dP_ann d < max_dp (e_data E))"

definition trialLine :: "design \<Rightarrow> trial_line" where
  "trialLine d =
     Trial (p_name (inner_pipe d)) (p_name (outer_pipe d)) (o_U d) (o_L_req d)
       (o_dP_in d div Fin 1000)"

text \<open>
  The nested loops visit the pairs \<open>(pipes[i], pipes[j])\<close>, \<open>i < j\<close>, by ascending \<open>i\<close>
  and then ascending \<open>j\<close>.
\<close>

fun pairs :: "'a list \<Rightarrow> ('a \<times> 'a) list" where
  "pairs [] = []"
| "pairs (x # xs) = map (Pair x) xs @ pairs xs"

text \<open>The loop variables: \<open>best_design\<close>, \<open>min_cost_metric\<close> and \<open>logs\<close>.\<close>

type_synonym search_state = "design option \<times> number \<times> trial_line list"

definition searchStep :: "env \<Rightarrow> search_state \<Rightarrow> pipe \<times> pipe \<Rightarrow> search_state" where
  "searchStep E st pr =
     (case st of (best_design, min_cost_metric, logs) \<Rightarrow>
        if \<not> clearance_ok (fst pr) (snd pr) then st
        else (let d = evalPair E (fst pr) (snd pr);
                  logs' = logs @ [trialLine d]
              in if velocity_ok d \<and> dp_ok E d \<and> o_A_req d < min_cost_metric
                 then (Some d, o_A_req d, logs')
                 else (best_design, min_cost_metric, logs')))"

definition search :: "env \<Rightarrow> (pipe \<times> pipe) list \<Rightarrow> search_state" where
  "search E ps = foldl (searchStep E) (None, PInf, []) ps"

definition NoFeasibleDesign :: string where
  "NoFeasibleDesign = ''No standard pipe combination met the constraints (dP or Velocity). Try relaxing dP limits or increasing Flow Rate.''"

definition optimize :: "env \<Rightarrow> dphx_result" where
  \<comment> \<open>section 3, the pipe optimizer engine, and the two returns after it\<close>
  "optimize E =
     (case search E (pairs STANDARD_PIPES) of
        (None, _, logs) \<Rightarrow> DError NoFeasibleDesign (Some logs)
      | (Some best_design, _, logs) \<Rightarrow> Success best_design logs)"

definition validate :: "dphx_data \<Rightarrow> string + env" where
  \<comment> \<open>sections 1 and 2 with their early returns: the error message, or what the search reads\<close>
  "validate data =
     (case energyBalance data of
        Inl msg \<Rightarrow> Inl msg
      | Inr b \<Rightarrow>
         (case temperatures data b of
            Inl msg \<Rightarrow> Inl msg
          | Inr LMTD \<Rightarrow> Inr \<lparr>e_data = data, e_bal = b, e_LMTD = LMTD\<rparr>))"

definition dphx_body :: "dphx_data option \<Rightarrow> exn + dphx_result" where
  \<comment> \<open>the body of the \<open>try\<close> block; reading a property of \<open>null\<close> or \<open>undefined\<close> throws\<close>
  "dphx_body arg =
     (case arg of None \<Rightarrow> Inl TypeError
      | Some data \<Rightarrow>
         (case validate data of
            Inl msg \<Rightarrow> Inr (DError msg None)
          | Inr E \<Rightarrow> Inr (optimize E)))"

definition exn_toString :: "exn \<Rightarrow> string" where
  \<comment> \<open>\<open>e.toString()\<close>; the message the engine appends to the name is left out\<close>
  "exn_toString e = (case e of TypeError \<Rightarrow> ''TypeError'')"

definition calculateDPHX :: "dphx_data option \<Rightarrow> exn + dphx_result" where
  \<comment> \<open>\<open>try { body } catch (e) { return { error: e.toString() } }\<close>\<close>
  "calculateDPHX arg =
     (case dphx_body arg of
        Inl e \<Rightarrow> Inr (DError (exn_toString e) None)
      | Inr r \<Rightarrow> Inr r)"

section \<open>The LMTD of the other double-pipe calculator\<close>

definition lmtd_v2 :: "number \<Rightarrow> number \<Rightarrow> string + number" where
  "lmtd_v2 deltaT1 deltaT2 =
     (if deltaT1 \<le> Fin 0 \<or> deltaT2 \<le> Fin 0 \<or> jeq deltaT1 deltaT2 then
        (if \<bar>deltaT1 - deltaT2\<bar> < Fin 0.00001 then Inr deltaT1
         else Inl ''Invalid temperature difference for LMTD calculation.'')
      else Inr ((deltaT1 - deltaT2) div jlog (deltaT1 div deltaT2)))"

section \<open>The design iteration as the specification words it\<close>

text \<open>
  The sequence of assumed coefficients: the starting value, then the damped average
  \<open>0.5 * U_guess + 0.5 * U_calc\<close> of each guess and the value rated from it; the relative
  error \<open>|U_calc - U_guess| / U_guess\<close> of a guess; and the convergence check of the
  specification, a relative error of at most the tolerance of 10%.
\<close>

fun assumedU :: "fluid \<Rightarrow> fluid \<Rightarrow> geom \<Rightarrow> number \<Rightarrow> number \<Rightarrow> number \<Rightarrow> nat \<Rightarrow> number" where
  "assumedU S T D Q LMTD U0 0 = U0"
| "assumedU S T D Q LMTD U0 (Suc n) =
     Fin 0.5 * assumedU S T D Q LMTD U0 n
     + Fin 0.5 * r_U_clean (trialRating S T D Q LMTD (assumedU S T D Q LMTD U0 n))"

definition relativeError :: "number \<Rightarrow> number \<Rightarrow> number" where
  "relativeError U_g U_calc = \<bar>U_calc - U_g\<bar> div U_g"

definition withinTolerance :: "number \<Rightarrow> number \<Rightarrow> bool" where
  "withinTolerance U_g U_calc = (relativeError U_g U_calc \<le> Fin 0.1)"

text \<open>
  A run of the loop in closed form: the first iteration (counted from 0) within the
  budget whose guess passes the test of the code, and the log lines of the iterations
  from \<open>i\<close> up to \<open>n\<close>.
\<close>

definition firstConverged :: "fluid \<Rightarrow> fluid \<Rightarrow> geom \<Rightarrow> number \<Rightarrow> number \<Rightarrow> number \<Rightarrow> nat option" where
  "firstConverged S T D Q LMTD U0 =
     find (\<lambda>n. converges_at S T D Q LMTD (assumedU S T D Q LMTD U0 n)) [0..<MaxIter]"

definition iterLines :: "fluid \<Rightarrow> fluid \<Rightarrow> geom \<Rightarrow> number \<Rightarrow> number \<Rightarrow> number \<Rightarrow> nat \<Rightarrow> nat \<Rightarrow> log_line list" where
  "iterLines S T D Q LMTD U0 i n =
     map (\<lambda>j. iterLine S T D Q LMTD j (assumedU S T D Q LMTD U0 j)) [i..<n]"

section \<open>Example inputs\<close>

text \<open>
  Water on both sides, 2 kg/s cooled from 80 to 50 degrees against 2.5 kg/s heated from
  20 to 44 degrees, in 3/4 inch tubes on a triangular pitch; design mode with the hot
  fluid on the shell side.
\<close>

definition ex_hot :: fluid where
  "ex_hot = \<lparr>f_m = Fin 2, f_Tin = Fin 80, f_Tout = Fin 50, f_cp = Fin 4180, f_rho = Fin 997,
             f_mu = Fin 0.00089, f_k = Fin 0.607, f_P = Fin 1, f_fouling = Fin 0.0001\<rparr>"

definition ex_cold :: fluid where
  "ex_cold = \<lparr>f_m = Fin 2.5, f_Tin = Fin 20, f_Tout = Fin 44, f_cp = Fin 4180, f_rho = Fin 997,
              f_mu = Fin 0.00089, f_k = Fin 0.607, f_P = Fin 1, f_fouling = Fin 0.0001\<rparr>"

definition ex_input :: sthx_input where
  "ex_input =
     \<lparr>in_mode = ''design'', in_allocation_mode = ''manual'', in_allocation = ''hot_shell'',
      in_hot = Some ex_hot, in_cold = Some ex_cold,
      in_U_guess = None, in_tube_length = None, in_tube_passes = None,
      in_tube_od = Fin 0.01905, in_tube_id = Fin 0.01575, in_tube_pitch = Fin 0.0238,
      in_pitch_type = ''triangular'', in_baffle_spacing = NaN, in_baffles_n = NaN,
      in_shell_ID = NaN, in_total_tubes = NaN, in_Rf_t = Fin 0.0001, in_Rf_s = Fin 0.0001\<rparr>"

definition ex_D :: geom where
  "ex_D = merge_defaults ex_input"

definition ex_noflow_input :: sthx_input where
  \<comment> \<open>the example with the mass flow of the cold (tube-side) fluid left out\<close>
  "ex_noflow_input = ex_input\<lparr>in_cold := Some (ex_cold\<lparr>f_m := NaN\<rparr>)\<rparr>"

text \<open>The parts of what a call returned, where it returned a rating.\<close>

definition result_logs :: "exn + sthx_result \<Rightarrow> log_line list option" where
  "result_logs r = (case r of Inr (Rated _ _ logs) \<Rightarrow> Some logs | _ \<Rightarrow> None)"

definition result_converged :: "exn + sthx_result \<Rightarrow> bool option" where
  "result_converged r = (case r of Inr (Rated _ c _) \<Rightarrow> c | _ \<Rightarrow> None)"

definition result_rating :: "exn + sthx_result \<Rightarrow> rating option" where
  "result_rating r = (case r of Inr (Rated x _ _) \<Rightarrow> Some x | _ \<Rightarrow> None)"

section \<open>The search as the specification words it\<close>

text \<open>
  The pairs the loops do not skip, in the order of the loops; the candidates rated from
  them; the two constraints together; the step of the selection on a rated candidate;
  and what the selection has established after the candidates \<open>ds\<close>.
\<close>

definition enumerated :: "(pipe \<times> pipe) list" where
  "enumerated = filter (\<lambda>pr. clearance_ok (fst pr) (snd pr)) (pairs STANDARD_PIPES)"

definition trials :: "env \<Rightarrow> design list" where
  "trials E = map (\<lambda>pr. evalPair E (fst pr) (snd pr)) enumerated"

definition feasible :: "env \<Rightarrow> design \<Rightarrow> bool" where
  "feasible E d = (velocity_ok d \<and> dp_ok E d)"

definition selectStep :: "env \<Rightarrow> search_state \<Rightarrow> design \<Rightarrow> search_state" where
  "selectStep E st d =
     (case st of (best_design, min_cost_metric, logs) \<Rightarrow>
        if feasible E d \<and> o_A_req d < min_cost_metric
        then (Some d, o_A_req d, logs @ [trialLine d])
        else (best_design, min_cost_metric, logs @ [trialLine d]))"

text \<open>The loop invariant of the selection.\<close>

definition selected :: "env \<Rightarrow> design list \<Rightarrow> design option \<Rightarrow> number \<Rightarrow> bool" where
  "selected E ds best m =
     (case best of
        None \<Rightarrow> m = PInf \<and> (\<forall>c \<in> set ds. feasible E c \<longrightarrow> o_A_req c = PInf)
      | Some b \<Rightarrow>
          m = o_A_req b \<and> feasible E b \<and> o_A_req b < PInf
          \<and> (\<exists>xs ys. ds = xs @ b # ys
                \<and> (\<forall>c \<in> set xs. feasible E c \<longrightarrow> o_A_req b < o_A_req c)
                \<and> (\<forall>c \<in> set ys. feasible E c \<longrightarrow> o_A_req b \<le> o_A_req c)))"

text \<open>The log of what the optimizer returned.\<close>

definition dphx_logs :: "exn + dphx_result \<Rightarrow> trial_line list option" where
  "dphx_logs r =
     (case r of Inr (DError _ logs) \<Rightarrow> logs | Inr (Success _ logs) \<Rightarrow> Some logs | Inl _ \<Rightarrow> None)"

text \<open>
  Two inputs of the optimizer: water on both sides at 0.1 kg/s with no temperature change
  (a zero duty, so that every candidate needs the area 0), and the same with the hot
  inlet temperature left out.
\<close>

definition ex_dp :: dphx_data where
  "ex_dp =
     \<lparr>d_m_h = Fin 0.1, d_T_h_in = Fin 80, d_T_h_out = Fin 80,
      d_m_c = Fin 0.1, d_T_c_in = Fin 20, d_T_c_out = Fin 20,
      d_Cp_h = Fin 4.18, d_rho_h = Fin 997, d_mu_h = Fin 0.00089, d_k_h = Fin 0.607,
      d_Cp_c = Fin 4.18, d_rho_c = Fin 997, d_mu_c = Fin 0.00089, d_k_c = Fin 0.607,
      d_flow_type = Fin 1, d_Rf_h = NaN, d_Rf_c = NaN,
      d_allowable_dp_inner = NaN, d_allowable_dp_ann = NaN\<rparr>"

definition ex_dp_env :: env where
  "ex_dp_env =
     \<lparr>e_data = ex_dp,
      e_bal = \<lparr>b_m_h = Fin 0.1, b_m_c = Fin 0.1, b_T_h_out = Fin 80, b_T_c_out = Fin 20,
               b_Q = Fin 0\<rparr>,
      e_LMTD = Fin 60\<rparr>"

definition ex_dp_blank :: dphx_data where
  \<comment> \<open>the example with the hot inlet temperature left out\<close>
  "ex_dp_blank = ex_dp\<lparr>d_T_h_in := NaN\<rparr>"

definition ex_dp_blank_env :: env where
  "ex_dp_blank_env =
     \<lparr>e_data = ex_dp_blank,
      e_bal = \<lparr>b_m_h = Fin 0.1, b_m_c = Fin 0.1, b_T_h_out = Fin 80, b_T_c_out = Fin 20,
               b_Q = NaN\<rparr>,
      e_LMTD = NaN\<rparr>"

text \<open>Further inputs, each the example above with something left out or changed.\<close>

definition ex_no_outlets_input :: sthx_input where
  \<comment> \<open>the example with both outlet temperatures left out\<close>
  "ex_no_outlets_input =
     ex_input\<lparr>in_hot := Some (ex_hot\<lparr>f_Tout := NaN\<rparr>), in_cold := Some (ex_cold\<lparr>f_Tout := NaN\<rparr>)\<rparr>"

definition ex_no_fluids_input :: sthx_input where
  \<comment> \<open>the example without the objects \<open>hot\<close> and \<open>cold\<close>\<close>
  "ex_no_fluids_input = ex_input\<lparr>in_hot := None, in_cold := None\<rparr>"

definition ex_zero_flow_input :: sthx_input where
  \<comment> \<open>rating of a 0.6 m shell with 200 tubes, with no flow on the tube side\<close>
  "ex_zero_flow_input =
     ex_input\<lparr>in_mode := ''rating'', in_cold := Some (ex_cold\<lparr>f_m := Fin 0\<rparr>),
              in_shell_ID := Fin 0.6, in_total_tubes := Fin 200\<rparr>"

definition ex_dp_no_outlets :: dphx_data where
  \<comment> \<open>both mass flows and both inlet temperatures, no outlet temperature\<close>
  "ex_dp_no_outlets =
     ex_dp\<lparr>d_m_h := Fin 2, d_m_c := Fin 2.5, d_T_h_out := NaN, d_T_c_out := NaN\<rparr>"

definition ex_negative_guess_input :: sthx_input where
  \<comment> \<open>the first example with a starting guess of -500\<close>
  "ex_negative_guess_input = ex_input\<lparr>in_U_guess := Some (Fin (- 500))\<rparr>"

text \<open>
  An input of the optimizer with negative densities and an infinite fouling resistance
  on the hot side: 0.1 kg/s cooled from 80 to 50 degrees against 0.1 kg/s heated from 20
  to 50 degrees.
\<close>

definition ex_dp_negative :: dphx_data where
  "ex_dp_negative =
     ex_dp\<lparr>d_T_h_out := Fin 50, d_T_c_out := Fin 50,
           d_rho_h := Fin (- 1000), d_rho_c := Fin (- 1000), d_Rf_h := PInf\<rparr>"

definition ex_dp_negative_env :: env where
  "ex_dp_negative_env =
     \<lparr>e_data = ex_dp_negative,
      e_bal = \<lparr>b_m_h = Fin 0.1, b_m_c = Fin 0.1, b_T_h_out = Fin 50, b_T_c_out = Fin 50,
               b_Q = Fin 12540\<rparr>,
      e_LMTD = Fin 30\<rparr>"

text \<open>A number that is finite and positive.\<close>

definition posfin :: "number \<Rightarrow> bool" where
  "posfin a = (case a of Fin x \<Rightarrow> 0 < x | _ \<Rightarrow> False)"

section \<open>Properties of the numbers\<close>

lemmas number_ops =
  plus_number_def uminus_number_def minus_number_def times_number_def
  divide_number_def abs_number_def less_number_def less_eq_number_def

lemma jadd_NaN_right [simp]: "jadd a NaN = NaN" by (cases a) simp_all
lemma jmul_NaN_right [simp]: "jmul a NaN = NaN" by (cases a) simp_all
lemma jdiv_NaN_right [simp]: "jdiv a NaN = NaN" by (cases a) simp_all
lemma jlt_NaN_right [simp]: "jlt a NaN = False" by (cases a) simp_all

lemma jlt_asym: "jlt a b \<Longrightarrow> \<not> jlt b a \<and> a \<noteq> b"
  by (cases a; cases b) auto

lemma less_not_ge: "(a::number) < b \<Longrightarrow> \<not> b \<le> a"
  using jlt_asym [of a b] by (auto simp: number_ops jeq_def)

lemma last_TEMA: "last TEMA_shells = Fin 1.524"
  by (simp add: TEMA_shells_def number_ops)

lemma standardShell_overflow:
  assumes "\<forall>s \<in> set TEMA_shells. s < Ds_est"
  shows "standardShell Ds_est = Fin 1.524"
proof -
  have "\<forall>s \<in> set TEMA_shells. \<not> Ds_est \<le> s"
    using assms less_not_ge by blast
  then have "find (\<lambda>s. Ds_est \<le> s) TEMA_shells = None"
    by (simp add: find_None_iff)
  then show ?thesis
    by (simp add: standardShell_def last_TEMA)
qed

lemma standardShell_NaN: "standardShell NaN = Fin 1.524"
  by (simp add: standardShell_def TEMA_shells_def number_ops jeq_def)

section \<open>The design loop and the sequence of guesses\<close>

declare designLoop.simps [simp del]

lemma designLoop_from:
  "i \<le> MaxIter \<Longrightarrow>
   designLoop S T D Q L i (assumedU S T D Q L U0 i) logs =
     (case find (\<lambda>n. converges_at S T D Q L (assumedU S T D Q L U0 n)) [i..<MaxIter] of
        Some n \<Rightarrow> (Some (trialRating S T D Q L (assumedU S T D Q L U0 n)),
                   logs @ iterLines S T D Q L U0 i (Suc n))
      | None \<Rightarrow> (None, logs @ iterLines S T D Q L U0 i MaxIter))"
proof (induction "MaxIter - i" arbitrary: i logs)
  case 0
  then have "i = MaxIter" by simp
  then show ?case
    by (simp add: designLoop.simps [of _ _ _ _ _ MaxIter] iterLines_def)
next
  case (Suc d)
  then have lt: "i < MaxIter" and le: "Suc i \<le> MaxIter" and d: "d = MaxIter - Suc i"
    by simp_all
  have upt: "[i..<MaxIter] = i # [Suc i..<MaxIter]"
    using lt by (simp add: upt_conv_Cons)
  show ?case
  proof (cases "converges_at S T D Q L (assumedU S T D Q L U0 i)")
    case True
    then show ?thesis
      using lt
      by (simp add: designLoop.simps [of _ _ _ _ _ i] upt converges_at_def converged_def iterLines_def)
  next
    case False
    have step: "designLoop S T D Q L i (assumedU S T D Q L U0 i) logs =
        designLoop S T D Q L (Suc i) (assumedU S T D Q L U0 (Suc i))
          (logs @ [iterLine S T D Q L i (assumedU S T D Q L U0 i)])"
      using False lt
      by (simp add: designLoop.simps [of _ _ _ _ _ i] converges_at_def converged_def)
    have lines: "iterLines S T D Q L U0 i n =
        iterLine S T D Q L i (assumedU S T D Q L U0 i) # iterLines S T D Q L U0 (Suc i) n"
      if "i < n" for n
      using that by (simp add: iterLines_def upt_conv_Cons)
    have IH: "designLoop S T D Q L i (assumedU S T D Q L U0 i) logs =
       (case find (\<lambda>n. converges_at S T D Q L (assumedU S T D Q L U0 n)) [Suc i..<MaxIter] of
          Some n \<Rightarrow> (Some (trialRating S T D Q L (assumedU S T D Q L U0 n)),
                   (logs @ [iterLine S T D Q L i (assumedU S T D Q L U0 i)])
                   @ iterLines S T D Q L U0 (Suc i) (Suc n))
        | None \<Rightarrow> (None, (logs @ [iterLine S T D Q L i (assumedU S T D Q L U0 i)])
                   @ iterLines S T D Q L U0 (Suc i) MaxIter))"
      unfolding step by (rule Suc.hyps(1) [OF d le])
    show ?thesis
    proof (cases "find (\<lambda>n. converges_at S T D Q L (assumedU S T D Q L U0 n)) [Suc i..<MaxIter]")
      case None
      then show ?thesis
        using False lt by (simp add: IH upt lines del: assumedU.simps)
    next
      case (Some n)
      then have "n \<in> set [Suc i..<MaxIter]"
        by (auto simp: find_Some_iff)
      then have "i < Suc n" by simp
      then show ?thesis
        using False Some by (simp add: IH upt lines del: assumedU.simps)
    qed
  qed
qed

lemma designLoop_eq:
  "designLoop S T D Q L 0 U0 logs =
     (case firstConverged S T D Q L U0 of
        Some n \<Rightarrow> (Some (trialRating S T D Q L (assumedU S T D Q L U0 n)),
                   logs @ iterLines S T D Q L U0 0 (Suc n))
      | None \<Rightarrow> (None, logs @ iterLines S T D Q L U0 0 MaxIter))"
  using designLoop_from [of 0 S T D Q L U0 logs] by (simp add: firstConverged_def)

lemma firstConverged_bound: "firstConverged S T D Q L U0 = Some n \<Longrightarrow> n < MaxIter"
  by (auto simp: firstConverged_def find_Some_iff)

lemma calculateDuty_opt_Some: "calculateDuty_opt (Some S) (Some T) = Inr (calculateDuty S T)"
  by (simp add: calculateDuty_opt_def calculateDuty_def)

lemma runDesignIteration_eq:
  assumes "hot D = Some h" and "cold D = Some c"
    and "Q = calculateDuty S T" and "truthy Q"
    and "L = fst (calculateLMTD h c (tube_passes D))"
    and "U0 = jor (parseFloat (U_guess D)) (Fin 500)"
  shows "runDesignIteration (Some S) (Some T) D logs =
           Inr (case firstConverged S T D Q L U0 of
                  Some n \<Rightarrow>
                    Rated (trialRating S T D Q L (assumedU S T D Q L U0 n)) (Some True)
                      (logs @ StartingDesign # iterLines S T D Q L U0 0 (Suc n))
                | None \<Rightarrow>
                    Rated (performKernRating S T (D\<lparr>shell_ID := Fin 0.6, total_tubes := Fin 200\<rparr>))
                      (Some False)
                      (logs @ StartingDesign # iterLines S T D Q L U0 0 20 @ [MaxIterReached]))"
proof -
  have "runDesignIteration (Some S) (Some T) D logs =
     (case designLoop S T D Q L 0 U0 (logs @ [StartingDesign]) of
        (Some bestDesign, logs2) \<Rightarrow> Inr (Rated bestDesign (Some True) logs2)
      | (None, logs2) \<Rightarrow>
          Inr (Rated (performKernRating S T (D\<lparr>shell_ID := Fin 0.6, total_tubes := Fin 200\<rparr>))
                 (Some False) (logs2 @ [MaxIterReached])))"
    using assms
    by (simp add: runDesignIteration_def calculateDuty_opt_Some Let_def)
  also have "\<dots> = Inr (case firstConverged S T D Q L U0 of
                  Some n \<Rightarrow>
                    Rated (trialRating S T D Q L (assumedU S T D Q L U0 n)) (Some True)
                      (logs @ StartingDesign # iterLines S T D Q L U0 0 (Suc n))
                | None \<Rightarrow>
                    Rated (performKernRating S T (D\<lparr>shell_ID := Fin 0.6, total_tubes := Fin 200\<rparr>))
                      (Some False)
                      (logs @ StartingDesign # iterLines S T D Q L U0 0 20 @ [MaxIterReached]))"
    unfolding designLoop_eq MaxIter_def
    by (cases "firstConverged S T D Q L U0") simp_all
  finally show ?thesis .
qed

lemma relativeError_pos:
  "\<bar>(c - u) div u\<bar> = \<bar>c - u\<bar> div u" if "Fin 0 < u"
proof (cases u)
  case (Fin x)
  then show ?thesis using that
    by (cases c) (auto simp: number_ops abs_if divide_simps)
qed (use that in \<open>cases c; simp add: number_ops\<close>)+

lemma U_clean_NaN: "f_m T = NaN \<Longrightarrow> r_U_clean (performKernRating S T G) = NaN"
  by (simp add: performKernRating_def Let_def number_ops)

lemma not_converges_NaN:
  "f_m T = NaN \<Longrightarrow> \<not> converges_at S T D Q L u"
  by (simp add: converges_at_def converged_def trialError_def trialRating_def U_clean_NaN number_ops)

lemma firstConverged_NaN:
  "f_m T = NaN \<Longrightarrow> firstConverged S T D Q L U0 = None"
  by (simp add: firstConverged_def find_None_iff not_converges_NaN)

lemma firstConverged_SomeD:
  assumes "firstConverged S T D Q L U0 = Some n"
  shows "n < 20 \<and> converges_at S T D Q L (assumedU S T D Q L U0 n)
         \<and> (\<forall>j<n. \<not> converges_at S T D Q L (assumedU S T D Q L U0 j))"
proof -
  from assms obtain i where i: "i < length [0..<MaxIter]"
      "converges_at S T D Q L (assumedU S T D Q L U0 ([0..<MaxIter] ! i))"
      "n = [0..<MaxIter] ! i"
      "\<forall>j<i. \<not> converges_at S T D Q L (assumedU S T D Q L U0 ([0..<MaxIter] ! j))"
    unfolding firstConverged_def find_Some_iff by blast
  then have "n = i" "n < MaxIter" by simp_all
  with i show ?thesis by (auto simp: MaxIter_def)
qed

lemma firstConverged_NoneD:
  assumes "firstConverged S T D Q L U0 = None"
  shows "\<forall>j<20. \<not> converges_at S T D Q L (assumedU S T D Q L U0 j)"
  using assms by (auto simp: firstConverged_def find_None_iff MaxIter_def)

lemma length_iterLines: "length (iterLines S T D Q L U0 i n) = n - i"
  by (simp add: iterLines_def)

lemma ex_D_simps:
  "hot ex_D = Some ex_hot" "cold ex_D = Some ex_cold" "tube_passes ex_D = Fin 2"
  "U_guess ex_D = Fin 500"
  by (simp_all add: ex_D_def merge_defaults_def ex_input_def)

lemma ex_duty: "calculateDuty ex_hot ex_cold = Fin 250800"
  by (simp add: calculateDuty_def ex_hot_def truthy_def number_ops)

section \<open>The fallback after 20 iterations, and the examples\<close>

lemma rating_Ds: "g_Ds (r_Geometry (performKernRating S T G)) = shell_ID G"
  by (simp add: performKernRating_def Let_def)

lemma designLoop_NaN:
  "f_m T = NaN \<Longrightarrow> fst (designLoop S T D Q L 0 U0 logs) = None"
  by (simp add: designLoop_eq firstConverged_NaN)

lemma assumedU_NaN:
  "f_m T = NaN \<Longrightarrow> assumedU S T D Q L U0 (Suc n) = NaN"
  by (simp add: trialRating_def U_clean_NaN number_ops)

lemma trialShell_NaN: "trialShell D Q L NaN = Fin 1.524"
  by (simp add: trialShell_def estimateShell_def Let_def number_ops standardShell_NaN)

lemma ex_noflow_simps:
  "hot (merge_defaults ex_noflow_input) = Some ex_hot"
  "cold (merge_defaults ex_noflow_input) = Some (ex_cold\<lparr>f_m := NaN\<rparr>)"
  "tube_passes (merge_defaults ex_noflow_input) = Fin 2"
  "U_guess (merge_defaults ex_noflow_input) = Fin 500"
  "mode (merge_defaults ex_noflow_input) = ''design''"
  "allocation (merge_defaults ex_noflow_input) = ''hot_shell''"
  "allocation_mode (merge_defaults ex_noflow_input) = ''manual''"
  by (simp_all add: ex_noflow_input_def merge_defaults_def ex_input_def)

lemma ex_noflow_duty: "calculateDuty ex_hot (ex_cold\<lparr>f_m := NaN\<rparr>) = Fin 250800"
  by (simp add: calculateDuty_def ex_hot_def truthy_def number_ops)

lemma calculateSTHX_noflow:
  "calculateSTHX ex_noflow_input =
     runDesignIteration (Some ex_hot) (Some (ex_cold\<lparr>f_m := NaN\<rparr>))
       (merge_defaults ex_noflow_input) []"
  by (simp add: calculateSTHX_def Let_def dispatchMode_def ex_noflow_simps)

lemma runDesignIteration_exhausted:
  assumes "hot D = Some h" and "cold D = Some c"
    and "Q = calculateDuty S T" and "truthy Q"
    and "L = fst (calculateLMTD h c (tube_passes D))"
    and "U0 = jor (parseFloat (U_guess D)) (Fin 500)"
    and "fst (designLoop S T D Q L 0 U0 (logs @ [StartingDesign])) = None"
  shows "runDesignIteration (Some S) (Some T) D logs =
           Inr (Rated (performKernRating S T (D\<lparr>shell_ID := Fin 0.6, total_tubes := Fin 200\<rparr>))
                  (Some False)
                  (logs @ StartingDesign # iterLines S T D Q L U0 0 20 @ [MaxIterReached]))"
proof -
  have "firstConverged S T D Q L U0 = None"
    using assms(7) unfolding designLoop_eq
    by (cases "firstConverged S T D Q L U0") simp_all
  then show ?thesis
    using runDesignIteration_eq [OF assms(1-6), of logs] by simp
qed

lemma noflow_result:
  "calculateSTHX ex_noflow_input =
     Inr (Rated (performKernRating ex_hot (ex_cold\<lparr>f_m := NaN\<rparr>)
                   ((merge_defaults ex_noflow_input)\<lparr>shell_ID := Fin 0.6, total_tubes := Fin 200\<rparr>))
            (Some False)
            ([] @ StartingDesign #
               iterLines ex_hot (ex_cold\<lparr>f_m := NaN\<rparr>) (merge_defaults ex_noflow_input)
                 (Fin 250800) (fst (calculateLMTD ex_hot (ex_cold\<lparr>f_m := NaN\<rparr>) (Fin 2)))
                 (Fin 500) 0 20 @ [MaxIterReached]))"
  unfolding calculateSTHX_noflow
  by (rule runDesignIteration_exhausted [OF ex_noflow_simps(1,2)])
     (simp_all add: ex_noflow_duty truthy_def ex_noflow_simps jor_def parseFloat_def designLoop_NaN)


lemma ex_D_geom:
  "tube_od ex_D = Fin 0.01905" "tube_length ex_D = Fin 3" "tube_pitch ex_D = Fin 0.0238"
  by (simp_all add: ex_D_def merge_defaults_def ex_input_def)

lemma ex_big_tubes: "(10000::real) \<le> 1000000000 / (500 * 30) / (pi * 0.01905 * 3) * 1.05"
proof -
  have "pi * 0.01905 * 3 \<le> 4 * 0.01905 * (3::real)"
    using pi_less_4 by simp
  moreover have "0 < pi * 0.01905 * (3::real)" by simp
  ultimately have "1000000000 / (500 * 30) / (4 * 0.01905 * (3::real))
        \<le> 1000000000 / (500 * 30) / (pi * 0.01905 * 3)"
    by (intro divide_left_mono) (simp_all)
  then show ?thesis by simp
qed

lemma ex_big_estimate:
  "estimateShell ex_D (Fin 1000000000) (Fin 30) (Fin 500)
     = Fin (0.0238 * sqrt (of_int \<lceil>1000000000 / (500 * 30) / (pi * 0.01905 * 3) * 1.05 :: real\<rceil>) * 1.1)"
proof -
  have "(0::real) \<le> of_int \<lceil>1000000000 / (500 * 30) / (pi * 0.01905 * 3) * 1.05 :: real\<rceil>"
    using ex_big_tubes le_of_int_ceiling [of "1000000000 / (500 * 30) / (pi * 0.01905 * 3) * 1.05 :: real"]
    by linarith
  then show ?thesis
    by (simp add: estimateShell_def Let_def ex_D_geom number_ops)
qed

lemma ex_big_exceeds:
  "\<forall>s \<in> set TEMA_shells. s < estimateShell ex_D (Fin 1000000000) (Fin 30) (Fin 500)"
proof -
  let ?n = "of_int \<lceil>1000000000 / (500 * 30) / (pi * 0.01905 * 3) * 1.05 :: real\<rceil> :: real"
  have "10000 \<le> ?n"
    using ex_big_tubes by (meson le_of_int_ceiling order_trans)
  then have "sqrt (100 ^ 2) \<le> sqrt ?n"
    by (subst real_sqrt_le_iff) simp
  then have "100 \<le> sqrt ?n" by simp
  then have "2 < 0.0238 * sqrt ?n * 1.1" by simp
  then show ?thesis
    unfolding ex_big_estimate by (simp add: TEMA_shells_def number_ops)
qed

section \<open>The selection of the optimizer\<close>

lemma less_trans_number: "(a::number) < b \<Longrightarrow> b < c \<Longrightarrow> a < c"
  by (cases a; cases b; cases c) (auto simp: number_ops)

lemma less_le_trans_number: "(a::number) < b \<Longrightarrow> b \<le> c \<Longrightarrow> a < c"
  by (cases a; cases b; cases c) (auto simp: number_ops jeq_def)

lemma less_imp_le_number: "(a::number) < b \<Longrightarrow> a \<le> b"
  by (simp add: number_ops)

lemma not_less_number: "\<not> (a::number) < b \<Longrightarrow> a \<noteq> NaN \<Longrightarrow> b \<noteq> NaN \<Longrightarrow> b \<le> a"
  by (cases a; cases b) (auto simp: number_ops jeq_def)

lemma less_not_NaN: "(a::number) < b \<Longrightarrow> a \<noteq> NaN \<and> b \<noteq> NaN"
  by (cases a; cases b) (auto simp: number_ops)

lemma not_less_PInf: "\<not> (a::number) < PInf \<Longrightarrow> a \<noteq> NaN \<Longrightarrow> a = PInf"
  by (cases a) (auto simp: number_ops)

lemma jmul_not_NaN: "jmul a b \<noteq> NaN \<Longrightarrow> a \<noteq> NaN \<and> b \<noteq> NaN"
  by (cases a; cases b) auto

lemma jdiv_not_NaN: "jdiv a b \<noteq> NaN \<Longrightarrow> a \<noteq> NaN \<and> b \<noteq> NaN"
  by (cases a; cases b) auto

lemma searchStep_skip: "\<not> clearance_ok (fst pr) (snd pr) \<Longrightarrow> searchStep E st pr = st"
  by (cases st) (simp add: searchStep_def)

lemma searchStep_select:
  "clearance_ok (fst pr) (snd pr) \<Longrightarrow>
   searchStep E st pr = selectStep E st (evalPair E (fst pr) (snd pr))"
  by (cases st) (simp add: searchStep_def selectStep_def feasible_def Let_def)

lemma foldl_searchStep:
  "foldl (searchStep E) st ps =
   foldl (selectStep E) st
     (map (\<lambda>pr. evalPair E (fst pr) (snd pr)) (filter (\<lambda>pr. clearance_ok (fst pr) (snd pr)) ps))"
  by (induction ps arbitrary: st) (simp_all add: searchStep_skip searchStep_select)

lemma search_trials:
  "search E (pairs STANDARD_PIPES) = foldl (selectStep E) (None, PInf, []) (trials E)"
  by (simp add: search_def foldl_searchStep trials_def enumerated_def)

lemma selectStep_logs: "snd (snd (selectStep E st d)) = snd (snd st) @ [trialLine d]"
  by (cases st) (simp add: selectStep_def)

lemma select_logs:
  "snd (snd (foldl (selectStep E) st ds)) = snd (snd st) @ map trialLine ds"
  by (induction ds arbitrary: st) (simp_all add: selectStep_logs)

lemma selected_step:
  assumes inv: "selected E ds best m"
    and nan: "feasible E d \<longrightarrow> o_A_req d \<noteq> NaN"
    and step: "selectStep E (best, m, logs) d = (best', m', logs')"
  shows "selected E (ds @ [d]) best' m'"
proof (cases "feasible E d \<and> o_A_req d < m")
  case True
  then have new: "best' = Some d" "m' = o_A_req d"
    using step by (simp_all add: selectStep_def)
  have "o_A_req d < o_A_req c" if "c \<in> set ds" "feasible E c" for c
  proof (cases best)
    case None
    then have "o_A_req c = PInf" "m = PInf"
      using inv that by (auto simp: selected_def)
    then show ?thesis using True by simp
  next
    case (Some b)
    then obtain xs ys where b: "m = o_A_req b" "ds = xs @ b # ys"
        "\<forall>c \<in> set xs. feasible E c \<longrightarrow> o_A_req b < o_A_req c"
        "\<forall>c \<in> set ys. feasible E c \<longrightarrow> o_A_req b \<le> o_A_req c"
      using inv by (auto simp: selected_def)
    from that b(2) consider "c \<in> set xs" | "c = b" | "c \<in> set ys" by auto
    then show ?thesis
    proof cases
      case 1
      then show ?thesis
        using True b(1,3) that(2) less_trans_number by blast
    next
      case 2
      then show ?thesis using True b(1) by simp
    next
      case 3
      then show ?thesis
        using True b(1,4) that(2) less_le_trans_number by blast
    qed
  qed
  moreover have "o_A_req d < PInf"
  proof (cases best)
    case None
    then show ?thesis using inv True by (simp add: selected_def)
  next
    case (Some b)
    then show ?thesis
      using inv True less_trans_number by (auto simp: selected_def)
  qed
  ultimately have "ds @ [d] = ds @ d # []
        \<and> (\<forall>c \<in> set ds. feasible E c \<longrightarrow> o_A_req d < o_A_req c)
        \<and> (\<forall>c \<in> set ([] :: design list). feasible E c \<longrightarrow> o_A_req d \<le> o_A_req c)"
    and lt: "o_A_req d < PInf"
    by simp_all
  then have "\<exists>xs ys. ds @ [d] = xs @ d # ys
        \<and> (\<forall>c \<in> set xs. feasible E c \<longrightarrow> o_A_req d < o_A_req c)
        \<and> (\<forall>c \<in> set ys. feasible E c \<longrightarrow> o_A_req d \<le> o_A_req c)"
    by blast
  with lt show ?thesis
    using True new by (simp add: selected_def)
next
  case False
  then have same: "best' = best" "m' = m"
    using step by (auto simp: selectStep_def split: if_splits)
  show ?thesis
  proof (cases best)
    case None
    then have "m = PInf" using inv by (simp add: selected_def)
    then have "feasible E d \<longrightarrow> o_A_req d = PInf"
      using False nan not_less_PInf by blast
    then show ?thesis
      using inv None same by (auto simp: selected_def)
  next
    case (Some b)
    then obtain xs ys where b: "m = o_A_req b" "feasible E b" "o_A_req b < PInf" "ds = xs @ b # ys"
        "\<forall>c \<in> set xs. feasible E c \<longrightarrow> o_A_req b < o_A_req c"
        "\<forall>c \<in> set ys. feasible E c \<longrightarrow> o_A_req b \<le> o_A_req c"
      using inv by (auto simp: selected_def)
    have "o_A_req b \<noteq> NaN"
      using b(3) less_not_NaN by blast
    then have "feasible E d \<longrightarrow> o_A_req b \<le> o_A_req d"
      using False nan b(1) not_less_number by blast
    then have "\<forall>c \<in> set (ys @ [d]). feasible E c \<longrightarrow> o_A_req b \<le> o_A_req c"
      using b(6) by auto
    moreover have "ds @ [d] = xs @ b # (ys @ [d])"
      using b(4) by simp
    ultimately show ?thesis
      using Some same b(1,2,3,5) unfolding selected_def by (simp only: option.case) blast
  qed
qed

lemma selected_foldl:
  assumes "\<forall>d \<in> set ds. feasible E d \<longrightarrow> o_A_req d \<noteq> NaN"
  shows "selected E ds (fst (foldl (selectStep E) (None, PInf, []) ds))
           (fst (snd (foldl (selectStep E) (None, PInf, []) ds)))"
  using assms
proof (induction ds rule: rev_induct)
  case Nil
  then show ?case by (simp add: selected_def)
next
  case (snoc d ds)
  obtain best m logs where st: "foldl (selectStep E) (None, PInf, []) ds = (best, m, logs)"
    by (cases "foldl (selectStep E) (None, PInf, []) ds") auto
  obtain best' m' logs' where st': "selectStep E (best, m, logs) d = (best', m', logs')"
    by (cases "selectStep E (best, m, logs) d") auto
  have "selected E ds best m"
    using snoc st by simp
  then have "selected E (ds @ [d]) best' m'"
    using snoc.prems st' by (intro selected_step [where d = d]) auto
  then show ?case
    by (simp add: st st')
qed

lemma dP_in_shape:
  "\<exists>f r v. o_dP_in (evalPair E i o') =
     f * (o_A_req (evalPair E i o') div (Fin pi * p_od i) div p_id i) * Fin 0.5 * r * v * v"
  apply (simp add: evalPair_def Let_def)
  apply (rule exI, rule exI, rule exI, rule refl)
  done

lemma dp_ok_not_NaN:
  assumes "dp_ok E (evalPair E i o')"
  shows "o_A_req (evalPair E i o') \<noteq> NaN"
proof -
  obtain f r v where sh: "o_dP_in (evalPair E i o') =
     f * (o_A_req (evalPair E i o') div (Fin pi * p_od i) div p_id i) * Fin 0.5 * r * v * v"
    using dP_in_shape by blast
  have "o_dP_in (evalPair E i o') \<noteq> NaN"
    using assms less_not_NaN by (auto simp: dp_ok_def)
  then have "jmul f (jdiv (jdiv (o_A_req (evalPair E i o')) (jmul (Fin pi) (p_od i))) (p_id i)) \<noteq> NaN"
    unfolding sh number_ops by (blast dest: jmul_not_NaN)
  then show ?thesis
    by (blast dest: jmul_not_NaN jdiv_not_NaN)
qed

lemma trials_not_NaN: "\<forall>d \<in> set (trials E). feasible E d \<longrightarrow> o_A_req d \<noteq> NaN"
  by (auto simp: trials_def feasible_def dp_ok_not_NaN)

lemma length_pairs: "length (pairs xs) = length xs * (length xs - 1) div 2"
proof (induction xs)
  case Nil
  then show ?case by simp
next
  case (Cons x xs)
  have "length xs + length xs * (length xs - 1) div 2 = Suc (length xs) * length xs div 2"
    by (cases "length xs") (simp_all add: algebra_simps)
  then show ?case using Cons by simp
qed

lemma length_pairs_STANDARD: "length (pairs STANDARD_PIPES) = 45"
  by (simp add: length_pairs STANDARD_PIPES_def)

lemma length_enumerated: "length enumerated = 38"
  by (simp add: enumerated_def STANDARD_PIPES_def clearance_ok_def number_ops)

lemma length_trials: "length (trials E) = 38"
  by (simp add: trials_def length_enumerated)

lemma ex_dp_balance: "energyBalance ex_dp = Inr (e_bal ex_dp_env)"
  by (simp add: energyBalance_def ex_dp_def ex_dp_env_def Let_def parseFloat_def jor_def
      truthy_def isNaN_def jeq_def number_ops)

lemma ex_dp_temperatures: "temperatures ex_dp (e_bal ex_dp_env) = Inr (Fin 60)"
  by (simp add: temperatures_def lmtd_dphx_def ex_dp_def ex_dp_env_def Let_def parseFloat_def
      parseInt_def jor_def truthy_def jeq_def number_ops)

lemma ex_dp_blank_balance: "energyBalance ex_dp_blank = Inr (e_bal ex_dp_blank_env)"
  by (simp add: energyBalance_def ex_dp_blank_def ex_dp_def ex_dp_blank_env_def Let_def
      parseFloat_def jor_def truthy_def isNaN_def jeq_def number_ops)

lemma ex_dp_blank_temperatures: "temperatures ex_dp_blank (e_bal ex_dp_blank_env) = Inr NaN"
  by (simp add: temperatures_def lmtd_dphx_def ex_dp_blank_def ex_dp_def ex_dp_blank_env_def
      Let_def parseFloat_def parseInt_def jor_def truthy_def jeq_def number_ops)

lemma pi_bounds_first: "10000000 / (6222277 * pi) < (4::real)" "40000000 / (25310839 * pi) < (4::real)"
  using pi_ge_two by (simp_all add: field_simps)

lemma ex_first:
  "feasible ex_dp_env (evalPair ex_dp_env (STANDARD_PIPES ! 0) (STANDARD_PIPES ! 2))
   \<and> o_A_req (evalPair ex_dp_env (STANDARD_PIPES ! 0) (STANDARD_PIPES ! 2)) = Fin 0"
  by (simp add: feasible_def velocity_ok_def dp_ok_def max_dp_def
      evalPair_def Let_def ex_dp_env_def ex_dp_def STANDARD_PIPES_def
      parseFloat_def jor_def truthy_def number_ops pi_bounds_first)

lemma hd_enumerated: "\<exists>rest. enumerated = (STANDARD_PIPES ! 0, STANDARD_PIPES ! 2) # rest"
  by (simp add: enumerated_def STANDARD_PIPES_def clearance_ok_def number_ops)

lemma A_req_shape:
  "o_A_req (evalPair E i o') = b_Q (e_bal E) div (o_U (evalPair E i o') * e_LMTD E)"
  by (simp add: evalPair_def Let_def)

lemma jdiv_zero: "jdiv (Fin 0) x = Fin 0 \<or> jdiv (Fin 0) x = NaN"
  by (cases x) auto

lemma idle_area:
  "b_Q (e_bal E) = Fin 0 \<Longrightarrow> d \<in> set (trials E) \<Longrightarrow> o_A_req d = Fin 0 \<or> o_A_req d = NaN"
proof -
  assume q: "b_Q (e_bal E) = Fin 0" and d: "d \<in> set (trials E)"
  from d obtain i o' where e: "d = evalPair E i o'"
    by (auto simp: trials_def)
  show ?thesis
    using jdiv_zero [of "jmul (o_U (evalPair E i o')) (e_LMTD E)"]
    by (simp add: e A_req_shape q number_ops)
qed

lemma NaN_duty_infeasible:
  "b_Q (e_bal E) = NaN \<Longrightarrow> d \<in> set (trials E) \<Longrightarrow> \<not> feasible E d"
proof
  assume q: "b_Q (e_bal E) = NaN" and d: "d \<in> set (trials E)" and f: "feasible E d"
  from d obtain i o' where e: "d = evalPair E i o'"
    by (auto simp: trials_def)
  have "o_A_req d = NaN"
    by (simp add: e A_req_shape q number_ops)
  moreover have "o_A_req d \<noteq> NaN"
    using f dp_ok_not_NaN by (simp add: e feasible_def)
  ultimately show False by simp
qed

section \<open>What the optimizer returns\<close>

lemma optimize_eq:
  "optimize E =
     (case fst (foldl (selectStep E) (None, PInf, []) (trials E)) of
        None \<Rightarrow> DError NoFeasibleDesign (Some (map trialLine (trials E)))
      | Some b \<Rightarrow> Success b (map trialLine (trials E)))"
proof -
  obtain best m logs where st: "foldl (selectStep E) (None, PInf, []) (trials E) = (best, m, logs)"
    by (cases "foldl (selectStep E) (None, PInf, []) (trials E)") auto
  have "logs = map trialLine (trials E)"
    using select_logs [of E "(None, PInf, [])" "trials E"] by (simp add: st)
  then show ?thesis
    by (simp add: optimize_def search_trials st split: option.split)
qed

lemma optimize_Success:
  assumes "optimize E = Success d lg"
  shows "lg = map trialLine (trials E) \<and> feasible E d \<and> o_A_req d < PInf
       \<and> (\<exists>xs ys. trials E = xs @ d # ys
             \<and> (\<forall>c \<in> set xs. feasible E c \<longrightarrow> o_A_req d < o_A_req c)
             \<and> (\<forall>c \<in> set ys. feasible E c \<longrightarrow> o_A_req d \<le> o_A_req c))"
proof -
  have best: "fst (foldl (selectStep E) (None, PInf, []) (trials E)) = Some d"
    and lg: "lg = map trialLine (trials E)"
    using assms unfolding optimize_eq by (auto split: option.splits)
  show ?thesis
    using selected_foldl [OF trials_not_NaN, of E] lg
    unfolding best selected_def by simp
qed

lemma optimize_DError:
  assumes "optimize E = DError msg lg"
  shows "msg = NoFeasibleDesign \<and> lg = Some (map trialLine (trials E))
       \<and> (\<forall>c \<in> set (trials E). feasible E c \<longrightarrow> o_A_req c = PInf)"
proof -
  have best: "fst (foldl (selectStep E) (None, PInf, []) (trials E)) = None"
    and lg: "msg = NoFeasibleDesign" "lg = Some (map trialLine (trials E))"
    using assms unfolding optimize_eq by (auto split: option.splits)
  show ?thesis
    using selected_foldl [OF trials_not_NaN, of E] lg
    unfolding best selected_def by simp
qed

lemma optimize_none_feasible:
  assumes "\<forall>c \<in> set (trials E). \<not> feasible E c"
  shows "optimize E = DError NoFeasibleDesign (Some (map trialLine (trials E)))"
proof (cases "optimize E")
  case (DError msg lg)
  then show ?thesis using optimize_DError by blast
next
  case (Success d lg)
  then have "feasible E d" "d \<in> set (trials E)"
    using optimize_Success [OF Success] by auto
  then show ?thesis using assms by blast
qed

lemma optimize_some_feasible:
  assumes "c \<in> set (trials E)" and "feasible E c" and "o_A_req c < PInf"
  shows "\<exists>d. optimize E = Success d (map trialLine (trials E))"
proof (cases "optimize E")
  case (DError msg lg)
  then have "o_A_req c = PInf"
    using optimize_DError [OF DError] assms by blast
  then show ?thesis using assms(3) by (simp add: number_ops)
next
  case (Success d lg)
  then show ?thesis using optimize_Success [OF Success] by blast
qed

lemma optimize_idle_first:
  assumes "trials E = d0 # rest" and "feasible E d0" and "o_A_req d0 = Fin 0"
    and "b_Q (e_bal E) = Fin 0"
  shows "optimize E = Success d0 (map trialLine (trials E))"
proof -
  have "o_A_req d0 < PInf" using assms(3) by (simp add: number_ops)
  then obtain d where d: "optimize E = Success d (map trialLine (trials E))"
    using optimize_some_feasible [of d0 E] assms(1,2) by auto
  then obtain xs ys where sp: "trials E = xs @ d # ys"
      "\<forall>c \<in> set xs. feasible E c \<longrightarrow> o_A_req d < o_A_req c"
    using optimize_Success [OF d] by blast
  have "xs = []"
  proof (rule ccontr)
    assume "xs \<noteq> []"
    then have "d0 \<in> set xs"
      using sp(1) assms(1) by (cases xs) auto
    then have "o_A_req d < Fin 0"
      using sp(2) assms(2,3) by auto
    moreover have "d \<in> set (trials E)" using sp(1) by simp
    then have "o_A_req d = Fin 0 \<or> o_A_req d = NaN"
      using idle_area [OF assms(4)] by blast
    ultimately show False by (auto simp: number_ops)
  qed
  then have "d = d0" using sp(1) assms(1) by simp
  then show ?thesis using d by simp
qed

lemma calculateDPHX_valid:
  "validate data = Inr E \<Longrightarrow> calculateDPHX (Some data) = Inr (optimize E)"
  by (simp add: calculateDPHX_def dphx_body_def)

lemma calculateDPHX_invalid:
  "validate data = Inl msg \<Longrightarrow> calculateDPHX (Some data) = Inr (DError msg None)"
  by (simp add: calculateDPHX_def dphx_body_def)

lemma calculateDPHX_SuccessD:
  assumes "calculateDPHX (Some data) = Inr (Success d lg)"
  shows "\<exists>E. validate data = Inr E \<and> optimize E = Success d lg"
  using assms by (cases "validate data") (simp_all add: calculateDPHX_valid calculateDPHX_invalid)

lemma calculateDPHX_logsD:
  assumes "calculateDPHX (Some data) = Inr (DError msg (Some lg))"
  shows "\<exists>E. validate data = Inr E \<and> optimize E = DError msg (Some lg)"
  using assms by (cases "validate data") (simp_all add: calculateDPHX_valid calculateDPHX_invalid)

lemma ex_dp_validate: "validate ex_dp = Inr ex_dp_env"
  by (simp add: validate_def ex_dp_balance ex_dp_temperatures) (simp add: ex_dp_env_def)

lemma ex_dp_blank_validate: "validate ex_dp_blank = Inr ex_dp_blank_env"
  by (simp add: validate_def ex_dp_blank_balance ex_dp_blank_temperatures)
     (simp add: ex_dp_blank_env_def)

lemma ex_dp_result:
  "calculateDPHX (Some ex_dp) =
     Inr (Success (evalPair ex_dp_env (STANDARD_PIPES ! 0) (STANDARD_PIPES ! 2))
            (map trialLine (trials ex_dp_env)))"
proof -
  obtain rest where "enumerated = (STANDARD_PIPES ! 0, STANDARD_PIPES ! 2) # rest"
    using hd_enumerated by blast
  then have "map (\<lambda>pr. evalPair ex_dp_env (fst pr) (snd pr)) enumerated =
      map (\<lambda>pr. evalPair ex_dp_env (fst pr) (snd pr)) ((STANDARD_PIPES ! 0, STANDARD_PIPES ! 2) # rest)"
    by (rule arg_cong)
  then have "trials ex_dp_env = evalPair ex_dp_env (STANDARD_PIPES ! 0) (STANDARD_PIPES ! 2)
      # map (\<lambda>pr. evalPair ex_dp_env (fst pr) (snd pr)) rest"
    unfolding trials_def by simp
  moreover have "b_Q (e_bal ex_dp_env) = Fin 0"
    by (simp add: ex_dp_env_def)
  ultimately have "optimize ex_dp_env =
      Success (evalPair ex_dp_env (STANDARD_PIPES ! 0) (STANDARD_PIPES ! 2))
        (map trialLine (trials ex_dp_env))"
    using ex_first by (intro optimize_idle_first) auto
  then show ?thesis
    by (simp add: calculateDPHX_valid [OF ex_dp_validate])
qed

lemma ex_dp_blank_infeasible: "\<forall>c \<in> set (trials ex_dp_blank_env). \<not> feasible ex_dp_blank_env c"
  using NaN_duty_infeasible [of ex_dp_blank_env] by (simp add: ex_dp_blank_env_def)

lemma ex_dp_blank_result:
  "calculateDPHX (Some ex_dp_blank) =
     Inr (DError NoFeasibleDesign (Some (map trialLine (trials ex_dp_blank_env))))"
  by (simp add: calculateDPHX_valid [OF ex_dp_blank_validate]
      optimize_none_feasible [OF ex_dp_blank_infeasible])

lemma energyBalance_ann:
  "energyBalance (data\<lparr>d_allowable_dp_ann := x\<rparr>) = energyBalance data"
  by (simp add: energyBalance_def Let_def)

lemma temperatures_ann:
  "temperatures (data\<lparr>d_allowable_dp_ann := x\<rparr>) b = temperatures data b"
  by (simp add: temperatures_def Let_def)

lemma evalPair_ann:
  "evalPair (E\<lparr>e_data := (e_data E)\<lparr>d_allowable_dp_ann := x\<rparr>\<rparr>) i o' = evalPair E i o'"
  by (simp add: evalPair_def Let_def)

lemma searchStep_ann:
  "searchStep (E\<lparr>e_data := (e_data E)\<lparr>d_allowable_dp_ann := x\<rparr>\<rparr>) = searchStep E"
  by (intro ext) (simp add: searchStep_def evalPair_ann dp_ok_def max_dp_def Let_def split: prod.split)

lemma optimize_ann:
  "optimize (E\<lparr>e_data := (e_data E)\<lparr>d_allowable_dp_ann := x\<rparr>\<rparr>) = optimize E"
  by (simp add: optimize_def search_def searchStep_ann)

lemma calculateDPHX_ann:
  "calculateDPHX (Some (data\<lparr>d_allowable_dp_ann := x\<rparr>)) = calculateDPHX (Some data)"
proof -
  have "optimize \<lparr>e_data = data\<lparr>d_allowable_dp_ann := x\<rparr>, e_bal = b, e_LMTD = L\<rparr>
      = optimize \<lparr>e_data = data, e_bal = b, e_LMTD = L\<rparr>" for b L
    using optimize_ann [where E = "\<lparr>e_data = data, e_bal = b, e_LMTD = L\<rparr>" and x = x] by simp
  then have "validate (data\<lparr>d_allowable_dp_ann := x\<rparr>) = Inr E' \<Longrightarrow>
      \<exists>E. validate data = Inr E \<and> optimize E' = optimize E" for E'
    by (auto simp: validate_def energyBalance_ann temperatures_ann split: sum.splits)
  moreover have "validate (data\<lparr>d_allowable_dp_ann := x\<rparr>) = Inl msg \<Longrightarrow>
      validate data = Inl msg" for msg
    by (auto simp: validate_def energyBalance_ann temperatures_ann split: sum.splits)
  ultimately show ?thesis
    by (cases "validate (data\<lparr>d_allowable_dp_ann := x\<rparr>)")
       (auto simp: calculateDPHX_valid calculateDPHX_invalid)
qed

lemma validate_data: "validate data = Inr E \<Longrightarrow> e_data E = data"
  by (auto simp: validate_def split: sum.splits)


section \<open>Degenerate inputs\<close>

lemma lmtd_dphx_equal: "0 < x \<Longrightarrow> lmtd_dphx (Fin x) (Fin x) = Inr (Fin x)"
  by (simp add: lmtd_dphx_def number_ops jeq_def)

lemma lmtd_v2_equal: "0 < x \<Longrightarrow> lmtd_v2 (Fin x) (Fin x) = Inr (Fin x)"
  by (simp add: lmtd_v2_def number_ops jeq_def)

lemma calculateLMTD_equal:
  assumes "f_Tin h - f_Tout c = Fin x" and "f_Tout h - f_Tin c = Fin x"
  shows "fst (calculateLMTD h c p) = NaN"
  using assms by (simp add: calculateLMTD_def Let_def) (simp add: number_ops)


lemma calculateDPHX_never_throws: "calculateDPHX arg \<noteq> Inl e"
  by (simp add: calculateDPHX_def split: sum.split)


lemma ex_no_outlets_simps:
  "hot (merge_defaults ex_no_outlets_input) = Some (ex_hot\<lparr>f_Tout := NaN\<rparr>)"
  "cold (merge_defaults ex_no_outlets_input) = Some (ex_cold\<lparr>f_Tout := NaN\<rparr>)"
  "mode (merge_defaults ex_no_outlets_input) = ''design''"
  "allocation (merge_defaults ex_no_outlets_input) = ''hot_shell''"
  "allocation_mode (merge_defaults ex_no_outlets_input) = ''manual''"
  by (simp_all add: ex_no_outlets_input_def merge_defaults_def ex_input_def)

lemma ex_no_outlets_duty:
  "calculateDuty (ex_hot\<lparr>f_Tout := NaN\<rparr>) (ex_cold\<lparr>f_Tout := NaN\<rparr>) = Fin 100000"
  by (simp add: calculateDuty_def truthy_def)

lemma ex_no_outlets_rated: "result_rating (calculateSTHX ex_no_outlets_input) \<noteq> None"
proof -
  have "calculateSTHX ex_no_outlets_input =
      runDesignIteration (Some (ex_hot\<lparr>f_Tout := NaN\<rparr>)) (Some (ex_cold\<lparr>f_Tout := NaN\<rparr>))
        (merge_defaults ex_no_outlets_input) []"
    by (simp add: calculateSTHX_def Let_def dispatchMode_def ex_no_outlets_simps)
  moreover have t: "truthy (Fin 100000)"
    by (simp add: truthy_def)
  note eq = runDesignIteration_eq
      [OF ex_no_outlets_simps(1) ex_no_outlets_simps(2) ex_no_outlets_duty [symmetric] t refl refl,
        of "[]"]
  have "result_rating (runDesignIteration (Some (ex_hot\<lparr>f_Tout := NaN\<rparr>))
      (Some (ex_cold\<lparr>f_Tout := NaN\<rparr>)) (merge_defaults ex_no_outlets_input) []) \<noteq> None"
    unfolding eq by (simp add: result_rating_def split: option.split)
  ultimately show ?thesis by simp
qed

lemma ex_dp_no_outlets_balance:
  "energyBalance ex_dp_no_outlets =
     Inr \<lparr>b_m_h = Fin 2, b_m_c = Fin 2.5, b_T_h_out = Fin 106.25, b_T_c_out = Fin (- 1),
          b_Q = Fin (- 219450)\<rparr>"
  by (simp add: energyBalance_def ex_dp_no_outlets_def ex_dp_def Let_def parseFloat_def jor_def
      truthy_def isNaN_def jeq_def number_ops)

lemma ex_dp_no_outlets_temperatures:
  "\<exists>L. temperatures ex_dp_no_outlets
         \<lparr>b_m_h = Fin 2, b_m_c = Fin 2.5, b_T_h_out = Fin 106.25, b_T_c_out = Fin (- 1),
          b_Q = Fin (- 219450)\<rparr> = Inr L"
  by (simp add: temperatures_def lmtd_dphx_def ex_dp_no_outlets_def ex_dp_def Let_def
      parseFloat_def parseInt_def jor_def truthy_def jeq_def number_ops)

lemma logs_of_optimize: "dphx_logs (Inr (optimize E)) = Some (map trialLine (trials E))"
  by (simp add: optimize_eq dphx_logs_def split: option.split)

lemma ex_dp_no_outlets_searched:
  "map_option length (dphx_logs (calculateDPHX (Some ex_dp_no_outlets))) = Some 38"
proof -
  obtain E where "validate ex_dp_no_outlets = Inr E"
    using ex_dp_no_outlets_temperatures
    by (auto simp: validate_def ex_dp_no_outlets_balance)
  then show ?thesis
    by (simp add: calculateDPHX_valid logs_of_optimize length_trials)
qed


lemma ex_zero_flow_simps:
  "hot (merge_defaults ex_zero_flow_input) = Some ex_hot"
  "cold (merge_defaults ex_zero_flow_input) = Some (ex_cold\<lparr>f_m := Fin 0\<rparr>)"
  "mode (merge_defaults ex_zero_flow_input) = ''rating''"
  "allocation (merge_defaults ex_zero_flow_input) = ''hot_shell''"
  "allocation_mode (merge_defaults ex_zero_flow_input) = ''manual''"
  by (simp_all add: ex_zero_flow_input_def merge_defaults_def ex_input_def)

lemma ex_zero_flow_result:
  "calculateSTHX ex_zero_flow_input =
     Inr (Rated (performKernRating ex_hot (ex_cold\<lparr>f_m := Fin 0\<rparr>)
                   (merge_defaults ex_zero_flow_input)) None [RunningRating])"
  by (simp add: calculateSTHX_def Let_def dispatchMode_def runRatingCalculation_def
      ex_zero_flow_simps)

lemma ex_zero_flow_fields:
  "r_Re_t (performKernRating ex_hot (ex_cold\<lparr>f_m := Fin 0\<rparr>) (merge_defaults ex_zero_flow_input)) = Fin 0"
  "r_h_t (performKernRating ex_hot (ex_cold\<lparr>f_m := Fin 0\<rparr>) (merge_defaults ex_zero_flow_input)) = Fin 0"
  "r_dP_t (performKernRating ex_hot (ex_cold\<lparr>f_m := Fin 0\<rparr>) (merge_defaults ex_zero_flow_input)) = NaN"
  by (simp_all add: performKernRating_def Let_def ex_zero_flow_input_def merge_defaults_def
      ex_input_def ex_hot_def ex_cold_def jor_def truthy_def parseFloat_def number_ops)


lemma Re_t_NaN: "f_m T = NaN \<Longrightarrow> r_Re_t (performKernRating S T G) = NaN"
  by (simp add: performKernRating_def Let_def number_ops)

lemma dP_in_NaN_infeasible: "o_dP_in d = NaN \<Longrightarrow> \<not> feasible E d"
  by (simp add: feasible_def dp_ok_def number_ops)


section \<open>Positive finite values, and two more examples\<close>

lemma posfin_Fin [simp]: "posfin (Fin x) = (0 < x)"
  by (simp add: posfin_def)

lemma posfinE: "posfin a \<Longrightarrow> (\<And>x. a = Fin x \<Longrightarrow> 0 < x \<Longrightarrow> P) \<Longrightarrow> P"
  by (cases a) (simp_all add: posfin_def)

lemma posfin_mult: "posfin a \<Longrightarrow> posfin b \<Longrightarrow> posfin (a * b)"
  by (elim posfinE) (simp add: number_ops)

lemma posfin_div: "posfin a \<Longrightarrow> posfin b \<Longrightarrow> posfin (a div b)"
  by (elim posfinE) (simp add: number_ops)

lemma posfin_add: "posfin a \<Longrightarrow> posfin b \<Longrightarrow> posfin (a + b)"
  by (elim posfinE) (simp add: number_ops)

lemma posfin_pow: "posfin a \<Longrightarrow> e \<noteq> 0 \<Longrightarrow> posfin (jpow a e)"
  by (elim posfinE) simp

lemmas posfin_intros = posfin_mult posfin_div posfin_add posfin_pow

lemma ex_De_pos:
  "posfin ((Fin 4 * (Fin 0.5 * Fin 0.866 * jpow (Fin 0.0238) 2
                     - Fin 0.5 * (Fin pi div Fin 4) * jpow (Fin 0.01905) 2))
           div (Fin 0.5 * Fin pi * Fin 0.01905))"
proof -
  have "0.5 * (pi / 4) * (0.01905::real) ^ 2 < 0.5 * 0.866 * 0.0238 ^ 2"
    using pi_less_4 by (simp add: power2_eq_square)
  then have "0 < 4 * (0.5 * 0.866 * (0.0238::real) ^ 2 - 0.5 * (pi / 4) * 0.01905 ^ 2)"
    by simp
  moreover have "0 < 0.5 * pi * (0.01905::real)"
    by simp
  ultimately have "0 < 4 * (0.5 * 0.866 * (0.0238::real) ^ 2 - 0.5 * (pi / 4) * 0.01905 ^ 2)
      / (0.5 * pi * 0.01905)"
    by (rule divide_pos_pos)
  then show ?thesis
    by (simp add: number_ops powr_numeral)
qed

lemma ex_Nt_real: "jfloor (Fin 0.785 * jpow (Fin 1.524 div Fin 0.0238) 2) = Fin 3218"
proof -
  have "\<lfloor>0.785 * (1.524 / 0.0238) ^ 2 :: real\<rfloor> = 3218"
    by (rule floor_unique) (simp_all add: power2_eq_square)
  then show ?thesis
    by (simp add: number_ops powr_numeral)
qed


lemma U_clean_posfin:
  assumes "posfin (f_m T)" "posfin (f_rho T)" "posfin (f_mu T)" "posfin (f_cp T)" "posfin (f_k T)"
    and "posfin (f_m S)" "posfin (f_mu S)" "posfin (f_cp S)" "posfin (f_k S)"
    and "posfin (tube_id G)" "posfin (tube_od G)" "posfin (total_tubes G)"
    and "posfin (tube_passes G)" "posfin (tube_pitch G)" "posfin (shell_ID G)"
    and "posfin (jor (baffle_spacing G) (shell_ID G * Fin 0.4))"
    and "posfin (tube_pitch G - tube_od G)"
    and "posfin (jlog (tube_od G div tube_id G))"
    and "posfin (if pitch_type G = ''square''
                then (Fin 4 * (jpow (tube_pitch G) 2 - (Fin pi div Fin 4) * jpow (tube_od G) 2))
                     div (Fin pi * tube_od G)
                else (Fin 4 * (Fin 0.5 * Fin 0.866 * jpow (tube_pitch G) 2
                               - Fin 0.5 * (Fin pi div Fin 4) * jpow (tube_od G) 2))
                     div (Fin 0.5 * Fin pi * tube_od G))"
  shows "posfin (r_U_clean (performKernRating S T G))"
  apply (simp only: performKernRating_def Let_def rating.select_convs)
  apply (intro posfin_intros assms)
  apply simp_all
  done


lemma ex_neg_simps:
  "tube_od (merge_defaults ex_negative_guess_input) = Fin 0.01905"
  "tube_length (merge_defaults ex_negative_guess_input) = Fin 3"
  "tube_pitch (merge_defaults ex_negative_guess_input) = Fin 0.0238"
  "tube_id (merge_defaults ex_negative_guess_input) = Fin 0.01575"
  "tube_passes (merge_defaults ex_negative_guess_input) = Fin 2"
  "U_guess (merge_defaults ex_negative_guess_input) = Fin (- 500)"
  "hot (merge_defaults ex_negative_guess_input) = Some ex_hot"
  "cold (merge_defaults ex_negative_guess_input) = Some ex_cold"
  "pitch_type (merge_defaults ex_negative_guess_input) = ''triangular''"
  "mode (merge_defaults ex_negative_guess_input) = ''design''"
  "allocation (merge_defaults ex_negative_guess_input) = ''hot_shell''"
  "allocation_mode (merge_defaults ex_negative_guess_input) = ''manual''"
  by (simp_all add: ex_negative_guess_input_def merge_defaults_def ex_input_def)

lemma ln_six_fifths: "4 / 25 \<le> ln (6 / 5 :: real)"
  using ln_one_plus_pos_lower_bound [of "1 / 5 :: real"] by (simp add: power2_eq_square)

lemma ex_lmtd: "fst (calculateLMTD ex_hot ex_cold (Fin 2)) = Fin (6 / ln (6 / 5) * (9 / 10))"
  using ln_six_fifths
  by (simp add: calculateLMTD_def Let_def ex_hot_def ex_cold_def number_ops)

lemma ex_lmtd_bounds:
  "0 < 6 / ln (6 / 5 :: real) * (9 / 10)" "6 / ln (6 / 5 :: real) * (9 / 10) \<le> 135 / 4"
proof -
  have p: "0 < ln (6 / 5 :: real)" using ln_six_fifths by linarith
  then show "0 < 6 / ln (6 / 5 :: real) * (9 / 10)" by simp
  have "6 / ln (6 / 5 :: real) \<le> 6 / (4 / 25)"
    using ln_six_fifths by (intro divide_left_mono) simp_all
  then show "6 / ln (6 / 5 :: real) * (9 / 10) \<le> 135 / 4" by simp
qed

lemma ex_neg_tubes:
  assumes "0 < l" and "l \<le> 135 / 4"
  shows "250800 / (- 500 * l) / (pi * (381 / 20000) * 3) * (21 / 20) \<le> (- 1 :: real)"
proof -
  have "l * pi \<le> 135 / 4 * 4"
    using assms pi_less_4 by (intro mult_mono) simp_all
  then have "(l * pi) * (1143 / 40) \<le> 135 / 4 * 4 * (1143 / 40)"
    by (rule mult_right_mono) simp
  moreover have "500 * l * (pi * (381 / 20000) * 3) = (l * pi) * (1143 / 40)"
    by simp
  ultimately have "500 * l * (pi * (381 / 20000) * 3) \<le> 250800 * (21 / 20)"
    by simp
  moreover have "0 < 500 * l * (pi * (381 / 20000) * 3)"
    using assms by simp
  ultimately have "1 \<le> 250800 * (21 / 20) / (500 * l * (pi * (381 / 20000) * 3))"
    by (simp add: le_divide_eq)
  moreover have "250800 / (- 500 * l) / (pi * (381 / 20000) * 3) * (21 / 20)
      = - (250800 * (21 / 20) / (500 * l * (pi * (381 / 20000) * 3)))"
    using assms by (simp add: field_simps)
  ultimately show ?thesis by linarith
qed

lemma ex_neg_estimate:
  "estimateShell (merge_defaults ex_negative_guess_input) (Fin 250800)
     (fst (calculateLMTD ex_hot ex_cold (Fin 2))) (Fin (- 500)) = NaN"
proof -
  let ?l = "6 / ln (6 / 5 :: real) * (9 / 10)"
  let ?y = "250800 / (- 500 * ?l) / (pi * (381 / 20000) * 3) * (21 / 20)"
  have "?y \<le> - 1"
    using ex_lmtd_bounds by (rule ex_neg_tubes)
  then have "\<lceil>?y\<rceil> \<le> - 1"
    by (simp add: ceiling_le_iff)
  then have "real_of_int \<lceil>?y\<rceil> \<le> real_of_int (- 1)"
    by (simp only: of_int_le_iff)
  then have neg: "real_of_int \<lceil>?y\<rceil> < 0"
    unfolding of_int_minus of_int_1 by linarith
  have l0: "?l \<noteq> 0" using ex_lmtd_bounds(1) by simp
  have "estimateShell (merge_defaults ex_negative_guess_input) (Fin 250800) (Fin ?l) (Fin (- 500))
      = Fin (119 / 5000) * jsqrt (Fin (real_of_int \<lceil>?y\<rceil>)) * Fin (11 / 10)"
    using l0 by (simp add: estimateShell_def Let_def ex_neg_simps number_ops)
  also have "\<dots> = NaN"
    using neg by (simp add: number_ops)
  finally show ?thesis
    by (simp add: ex_lmtd)
qed


lemma ex_neg_shell:
  "trialShell (merge_defaults ex_negative_guess_input) (Fin 250800)
     (fst (calculateLMTD ex_hot ex_cold (Fin 2))) (Fin (- 500)) = Fin 1.524"
  by (simp add: trialShell_def ex_neg_estimate standardShell_NaN)

lemma ex_wall: "posfin (jlog (Fin 0.01905 div Fin 0.01575))"
proof -
  have "0 < ln (0.01905 / 0.01575 :: real)"
    by (rule ln_gt_zero) simp
  then show ?thesis by (simp add: number_ops)
qed

lemma ex_neg_U_calc:
  "posfin (r_U_clean (trialRating ex_hot ex_cold (merge_defaults ex_negative_guess_input)
      (Fin 250800) (fst (calculateLMTD ex_hot ex_cold (Fin 2))) (Fin (- 500))))"
  unfolding trialRating_def ex_neg_shell
proof (rule U_clean_posfin)
  show "posfin (total_tubes (trialGeometry (merge_defaults ex_negative_guess_input) (Fin 1.524)))"
    using ex_Nt_real by (simp add: trialGeometry_def ex_neg_simps)
  show "posfin (jor (baffle_spacing (trialGeometry (merge_defaults ex_negative_guess_input) (Fin 1.524)))
           (shell_ID (trialGeometry (merge_defaults ex_negative_guess_input) (Fin 1.524)) * Fin 0.4))"
    by (simp add: trialGeometry_def jor_def truthy_def number_ops)
  show "posfin (tube_pitch (trialGeometry (merge_defaults ex_negative_guess_input) (Fin 1.524))
          - tube_od (trialGeometry (merge_defaults ex_negative_guess_input) (Fin 1.524)))"
    by (simp add: trialGeometry_def ex_neg_simps number_ops)
  show "posfin (jlog (tube_od (trialGeometry (merge_defaults ex_negative_guess_input) (Fin 1.524))
          div tube_id (trialGeometry (merge_defaults ex_negative_guess_input) (Fin 1.524))))"
    using ex_wall by (simp add: trialGeometry_def ex_neg_simps)
  show "posfin (if pitch_type (trialGeometry (merge_defaults ex_negative_guess_input) (Fin 1.524)) = ''square''
     then (Fin 4 * (jpow (tube_pitch (trialGeometry (merge_defaults ex_negative_guess_input) (Fin 1.524))) 2
                    - (Fin pi div Fin 4) * jpow (tube_od (trialGeometry (merge_defaults ex_negative_guess_input) (Fin 1.524))) 2))
          div (Fin pi * tube_od (trialGeometry (merge_defaults ex_negative_guess_input) (Fin 1.524)))
     else (Fin 4 * (Fin 0.5 * Fin 0.866 * jpow (tube_pitch (trialGeometry (merge_defaults ex_negative_guess_input) (Fin 1.524))) 2
                    - Fin 0.5 * (Fin pi div Fin 4) * jpow (tube_od (trialGeometry (merge_defaults ex_negative_guess_input) (Fin 1.524))) 2))
          div (Fin 0.5 * Fin pi * tube_od (trialGeometry (merge_defaults ex_negative_guess_input) (Fin 1.524))))"
    using ex_De_pos by (simp add: trialGeometry_def ex_neg_simps)
qed (simp_all add: trialGeometry_def ex_neg_simps ex_hot_def ex_cold_def)

lemma negative_guess_test:
  assumes "posfin c"
  shows "withinTolerance (Fin (- 500)) c" and "\<not> converged ((c - Fin (- 500)) div Fin (- 500))"
  using assms
  by (auto elim!: posfinE simp: withinTolerance_def relativeError_def converged_def number_ops jeq_def)

lemma ex_dp_negative_validate: "validate ex_dp_negative = Inr ex_dp_negative_env"
  by (simp add: validate_def energyBalance_def temperatures_def lmtd_dphx_def
      ex_dp_negative_def ex_dp_def ex_dp_negative_env_def Let_def parseFloat_def parseInt_def
      jor_def truthy_def isNaN_def jeq_def number_ops)

lemma negative_velocity_bounds:
  "- (10000 / (6241 * pi)) < (4::real)" "- (40000 / (25387 * pi)) < (4::real)"
proof -
  have "(0::real) < 10000 / (6241 * pi)" "(0::real) < 40000 / (25387 * pi)"
    by simp_all
  then show "- (10000 / (6241 * pi)) < (4::real)" "- (40000 / (25387 * pi)) < (4::real)"
    by linarith+
qed

lemma ex_negative_first:
  "feasible ex_dp_negative_env
     (evalPair ex_dp_negative_env (STANDARD_PIPES ! 0) (STANDARD_PIPES ! 2))"
  by (simp add: feasible_def velocity_ok_def dp_ok_def max_dp_def
      evalPair_def Let_def ex_dp_negative_env_def ex_dp_negative_def ex_dp_def STANDARD_PIPES_def
      parseFloat_def jor_def truthy_def number_ops negative_velocity_bounds)

lemma first_trial: "evalPair E (STANDARD_PIPES ! 0) (STANDARD_PIPES ! 2) \<in> set (trials E)"
proof -
  obtain rest where "enumerated = (STANDARD_PIPES ! 0, STANDARD_PIPES ! 2) # rest"
    using hd_enumerated by blast
  then have "(STANDARD_PIPES ! 0, STANDARD_PIPES ! 2) \<in> set enumerated"
    by (metis list.set_intros(1))
  then have "(\<lambda>pr. evalPair E (fst pr) (snd pr)) (STANDARD_PIPES ! 0, STANDARD_PIPES ! 2)
      \<in> set (trials E)"
    unfolding trials_def set_map by (rule imageI)
  then show ?thesis by simp
qed

lemma U_shape:
  "\<exists>X r c Y. o_U (evalPair E i o') =
     Fin 1 div (X + r * parseFloat (jor (d_Rf_h (e_data E)) (Fin 0.0002)) + c + Y)"
  apply (simp add: evalPair_def Let_def)
  apply (rule exI, rule exI, rule exI, rule exI, rule refl)
  done

lemma infinite_resistance:
  "jdiv (Fin 1) (jadd (jadd (jadd X (jmul r PInf)) c) Y) = Fin 0
   \<or> jdiv (Fin 1) (jadd (jadd (jadd X (jmul r PInf)) c) Y) = NaN"
  by (cases X; cases r; cases c; cases Y) auto

lemma infinite_fouling_area:
  assumes "d_Rf_h (e_data E) = PInf" and "d \<in> set (trials E)"
    and "b_Q (e_bal E) = Fin q" and "0 < q"
  shows "\<not> o_A_req d < PInf"
proof -
  from assms(2) obtain i o' where e: "d = evalPair E i o'"
    by (auto simp: trials_def)
  obtain X r c Y where "o_U d = Fin 1 div (X + r * PInf + c + Y)"
    using U_shape [of E i o'] assms(1) by (auto simp: e jor_def truthy_def parseFloat_def)
  then have "o_U d = Fin 0 \<or> o_U d = NaN"
    using infinite_resistance [of X r c Y] by (simp add: number_ops)
  then have "o_U d * e_LMTD E = Fin 0 \<or> o_U d * e_LMTD E = NaN"
    by (cases "e_LMTD E") (auto simp: number_ops)
  then have "o_A_req d = PInf \<or> o_A_req d = NaN"
    unfolding e A_req_shape using assms(3,4) by (auto simp: number_ops)
  then show ?thesis
    by (auto simp: number_ops)
qed


lemma optimize_no_finite_area:
  assumes "\<forall>c \<in> set (trials E). feasible E c \<longrightarrow> \<not> o_A_req c < PInf"
  shows "optimize E = DError NoFeasibleDesign (Some (map trialLine (trials E)))"
proof (cases "optimize E")
  case (DError msg lg)
  then show ?thesis using optimize_DError by blast
next
  case (Success d lg)
  then have "feasible E d" "d \<in> set (trials E)" "o_A_req d < PInf"
    using optimize_Success [OF Success] by auto
  then show ?thesis using assms by blast
qed

lemma ex_dp_negative_result:
  "calculateDPHX (Some ex_dp_negative) =
     Inr (DError NoFeasibleDesign (Some (map trialLine (trials ex_dp_negative_env))))"
proof -
  have "\<not> o_A_req c < PInf" if "c \<in> set (trials ex_dp_negative_env)" for c
    using that
    by (rule infinite_fouling_area [where q = 12540, rotated])
       (simp_all add: ex_dp_negative_env_def ex_dp_negative_def)
  then have "optimize ex_dp_negative_env =
      DError NoFeasibleDesign (Some (map trialLine (trials ex_dp_negative_env)))"
    by (intro optimize_no_finite_area) blast
  then show ?thesis
    by (simp add: calculateDPHX_valid [OF ex_dp_negative_validate])
qed


lemma calculateSTHX_negative_guess:
  "calculateSTHX ex_negative_guess_input =
     runDesignIteration (Some ex_hot) (Some ex_cold) (merge_defaults ex_negative_guess_input) []"
  by (simp add: calculateSTHX_def Let_def dispatchMode_def ex_neg_simps)

lemma ex_neg_not_converged:
  "\<not> converges_at ex_hot ex_cold (merge_defaults ex_negative_guess_input) (Fin 250800)
       (fst (calculateLMTD ex_hot ex_cold (Fin 2))) (Fin (- 500))"
  unfolding converges_at_def trialError_def
  by (rule negative_guess_test(2) [OF ex_neg_U_calc])

lemma ex_neg_first: "firstConverged ex_hot ex_cold (merge_defaults ex_negative_guess_input)
     (Fin 250800) (fst (calculateLMTD ex_hot ex_cold (Fin 2))) (Fin (- 500)) \<noteq> Some 0"
proof
  assume "firstConverged ex_hot ex_cold (merge_defaults ex_negative_guess_input)
     (Fin 250800) (fst (calculateLMTD ex_hot ex_cold (Fin 2))) (Fin (- 500)) = Some 0"
  from firstConverged_SomeD [OF this] show False
    using ex_neg_not_converged by simp
qed

lemma ex_neg_result:
  "calculateSTHX ex_negative_guess_input \<noteq>
     Inr (Rated (trialRating ex_hot ex_cold (merge_defaults ex_negative_guess_input) (Fin 250800)
                   (fst (calculateLMTD ex_hot ex_cold (Fin 2))) (Fin (- 500)))
            (Some True)
            [StartingDesign,
             iterLine ex_hot ex_cold (merge_defaults ex_negative_guess_input) (Fin 250800)
               (fst (calculateLMTD ex_hot ex_cold (Fin 2))) 0 (Fin (- 500))])"
proof -
  have t: "truthy (Fin 250800)" by (simp add: truthy_def)
  have l: "fst (calculateLMTD ex_hot ex_cold (Fin 2))
      = fst (calculateLMTD ex_hot ex_cold (tube_passes (merge_defaults ex_negative_guess_input)))"
    by (simp add: ex_neg_simps)
  have u: "Fin (- 500) = jor (parseFloat (U_guess (merge_defaults ex_negative_guess_input))) (Fin 500)"
    by (simp add: ex_neg_simps jor_def parseFloat_def truthy_def)
  note eq = runDesignIteration_eq [OF ex_neg_simps(7) ex_neg_simps(8) ex_duty [symmetric] t l u, of "[]"]
  show ?thesis
  proof (cases "firstConverged ex_hot ex_cold (merge_defaults ex_negative_guess_input)
     (Fin 250800) (fst (calculateLMTD ex_hot ex_cold (Fin 2))) (Fin (- 500))")
    case None
    then show ?thesis
      unfolding calculateSTHX_negative_guess eq by simp
  next
    case (Some n)
    then have "n \<noteq> 0" using ex_neg_first by auto
    then show ?thesis
      unfolding calculateSTHX_negative_guess eq Some
      by (simp add: iterLines_def upt_conv_Cons)
  qed
qed

section \<open>The claims\<close>

text \<open>
  C1, as amended. In design mode, once both fluids are there and the duty is truthy, the
  loop runs at most 20 iterations. It stops at the first iteration whose error
  \<open>(U_calc - U_guess) / U_guess\<close> is in absolute value strictly below 0.1, and returns
  the rating of that iteration with \<open>converged = true\<close>; the guesses before it follow
  the damped average \<open>0.5 * U_guess + 0.5 * U_calc\<close> (the sequence \<open>assumedU\<close>). When
  no iteration passes the test, the loop runs exactly 20 iterations and the result is
  flagged \<open>converged = false\<close>. The log holds one line for each iteration run. For a
  positive guess the test of the loop is the relative error
  \<open>|U_calc - U_guess| / U_guess\<close> strictly below 10%, so that an iteration at which the
  loop stops is within the tolerance \<open>withinTolerance\<close> of the specification.
\<close>

theorem design_loop_bounded_fixed_point:
  assumes "hot D = Some h" and "cold D = Some c"
    and "Q = calculateDuty S T" and "truthy Q"
    and "L = fst (calculateLMTD h c (tube_passes D))"
    and "U0 = jor (parseFloat (U_guess D)) (Fin 500)"
  shows "(\<forall>n. firstConverged S T D Q L U0 = Some n \<longrightarrow>
            runDesignIteration (Some S) (Some T) D logs =
              Inr (Rated (trialRating S T D Q L (assumedU S T D Q L U0 n)) (Some True)
                     (logs @ StartingDesign # iterLines S T D Q L U0 0 (Suc n)))
            \<and> n < 20 \<and> length (iterLines S T D Q L U0 0 (Suc n)) \<le> 20
            \<and> converges_at S T D Q L (assumedU S T D Q L U0 n)
            \<and> (\<forall>j<n. \<not> converges_at S T D Q L (assumedU S T D Q L U0 j)))
       \<and> (firstConverged S T D Q L U0 = None \<longrightarrow>
            (\<exists>r. runDesignIteration (Some S) (Some T) D logs =
                   Inr (Rated r (Some False)
                          (logs @ StartingDesign # iterLines S T D Q L U0 0 20 @ [MaxIterReached])))
            \<and> length (iterLines S T D Q L U0 0 20) = 20
            \<and> (\<forall>j<20. \<not> converges_at S T D Q L (assumedU S T D Q L U0 j)))
       \<and> (\<forall>u. converges_at S T D Q L u =
                (\<bar>(r_U_clean (trialRating S T D Q L u) - u) div u\<bar> < Fin 0.1))
       \<and> (\<forall>u. Fin 0 < u \<longrightarrow>
              converges_at S T D Q L u =
                (relativeError u (r_U_clean (trialRating S T D Q L u)) < Fin 0.1))
       \<and> (\<forall>u. Fin 0 < u \<longrightarrow> converges_at S T D Q L u \<longrightarrow>
              withinTolerance u (r_U_clean (trialRating S T D Q L u)))"
proof -
  note eq = runDesignIteration_eq [OF assms, of logs]
  have 1: "\<forall>n. firstConverged S T D Q L U0 = Some n \<longrightarrow>
            runDesignIteration (Some S) (Some T) D logs =
              Inr (Rated (trialRating S T D Q L (assumedU S T D Q L U0 n)) (Some True)
                     (logs @ StartingDesign # iterLines S T D Q L U0 0 (Suc n)))
            \<and> n < 20 \<and> length (iterLines S T D Q L U0 0 (Suc n)) \<le> 20
            \<and> converges_at S T D Q L (assumedU S T D Q L U0 n)
            \<and> (\<forall>j<n. \<not> converges_at S T D Q L (assumedU S T D Q L U0 j))"
  proof (intro allI impI)
    fix n
    assume n: "firstConverged S T D Q L U0 = Some n"
    have "runDesignIteration (Some S) (Some T) D logs =
              Inr (Rated (trialRating S T D Q L (assumedU S T D Q L U0 n)) (Some True)
                     (logs @ StartingDesign # iterLines S T D Q L U0 0 (Suc n)))"
      unfolding eq n by simp
    moreover have "length (iterLines S T D Q L U0 0 (Suc n)) \<le> 20"
      using firstConverged_SomeD [OF n] by (simp add: length_iterLines)
    ultimately show "runDesignIteration (Some S) (Some T) D logs =
              Inr (Rated (trialRating S T D Q L (assumedU S T D Q L U0 n)) (Some True)
                     (logs @ StartingDesign # iterLines S T D Q L U0 0 (Suc n)))
            \<and> n < 20 \<and> length (iterLines S T D Q L U0 0 (Suc n)) \<le> 20
            \<and> converges_at S T D Q L (assumedU S T D Q L U0 n)
            \<and> (\<forall>j<n. \<not> converges_at S T D Q L (assumedU S T D Q L U0 j))"
      using firstConverged_SomeD [OF n] by blast
  qed
  have 2: "firstConverged S T D Q L U0 = None \<longrightarrow>
            (\<exists>r. runDesignIteration (Some S) (Some T) D logs =
                   Inr (Rated r (Some False)
                          (logs @ StartingDesign # iterLines S T D Q L U0 0 20 @ [MaxIterReached])))
            \<and> length (iterLines S T D Q L U0 0 20) = 20
            \<and> (\<forall>j<20. \<not> converges_at S T D Q L (assumedU S T D Q L U0 j))"
  proof
    assume n: "firstConverged S T D Q L U0 = None"
    have "\<exists>r. runDesignIteration (Some S) (Some T) D logs =
                   Inr (Rated r (Some False)
                          (logs @ StartingDesign # iterLines S T D Q L U0 0 20 @ [MaxIterReached]))"
      unfolding eq n by simp
    then show "(\<exists>r. runDesignIteration (Some S) (Some T) D logs =
                   Inr (Rated r (Some False)
                          (logs @ StartingDesign # iterLines S T D Q L U0 0 20 @ [MaxIterReached])))
            \<and> length (iterLines S T D Q L U0 0 20) = 20
            \<and> (\<forall>j<20. \<not> converges_at S T D Q L (assumedU S T D Q L U0 j))"
      using firstConverged_NoneD [OF n] by (simp add: length_iterLines)
  qed
  have 3: "\<forall>u. converges_at S T D Q L u =
                (\<bar>(r_U_clean (trialRating S T D Q L u) - u) div u\<bar> < Fin 0.1)"
    by (simp add: converges_at_def converged_def trialError_def)
  have 4: "\<forall>u. Fin 0 < u \<longrightarrow>
              converges_at S T D Q L u =
                (relativeError u (r_U_clean (trialRating S T D Q L u)) < Fin 0.1)"
    by (simp add: converges_at_def converged_def trialError_def relativeError_def relativeError_pos)
  have 5: "\<forall>u. Fin 0 < u \<longrightarrow> converges_at S T D Q L u \<longrightarrow>
              withinTolerance u (r_U_clean (trialRating S T D Q L u))"
    using 4 by (simp add: withinTolerance_def less_imp_le_number)
  show ?thesis
    by (rule conjI [OF 1 conjI [OF 2 conjI [OF 3 conjI [OF 4 5]]]])
qed

theorem design_loop_bounded_fixed_point_witness:
  "hot ex_D = Some ex_hot \<and> cold ex_D = Some ex_cold \<and> truthy (calculateDuty ex_hot ex_cold)
   \<and> (\<exists>r c lg. runDesignIteration (Some ex_hot) (Some ex_cold) ex_D [] = Inr (Rated r c lg)
        \<and> length lg \<le> 22)
   \<and> Fin 0 < Fin 500
   \<and> converges_at ex_hot ex_cold ex_D (Fin 250800) (fst (calculateLMTD ex_hot ex_cold (Fin 2)))
          (Fin 500) =
        (relativeError (Fin 500)
           (r_U_clean (trialRating ex_hot ex_cold ex_D (Fin 250800)
              (fst (calculateLMTD ex_hot ex_cold (Fin 2))) (Fin 500))) < Fin 0.1)
   \<and> firstConverged ex_hot (ex_cold\<lparr>f_m := NaN\<rparr>) (merge_defaults ex_noflow_input) (Fin 250800)
        (fst (calculateLMTD ex_hot (ex_cold\<lparr>f_m := NaN\<rparr>) (Fin 2))) (Fin 500) = None
   \<and> length (iterLines ex_hot (ex_cold\<lparr>f_m := NaN\<rparr>) (merge_defaults ex_noflow_input) (Fin 250800)
        (fst (calculateLMTD ex_hot (ex_cold\<lparr>f_m := NaN\<rparr>) (Fin 2))) (Fin 500) 0 20) = 20"
proof -
  have t: "truthy (calculateDuty ex_hot ex_cold)"
    by (simp add: ex_duty truthy_def)
  have t': "truthy (Fin 250800)"
    by (simp add: truthy_def)
  have l: "fst (calculateLMTD ex_hot ex_cold (Fin 2))
           = fst (calculateLMTD ex_hot ex_cold (tube_passes ex_D))"
    by (simp add: ex_D_simps)
  have u: "Fin 500 = jor (parseFloat (U_guess ex_D)) (Fin 500)"
    by (simp add: ex_D_simps jor_def parseFloat_def)
  note inst = design_loop_bounded_fixed_point
      [OF ex_D_simps(1) ex_D_simps(2) ex_duty [symmetric] t' l u, of "[]"]
  have pos: "Fin 0 < Fin 500" by (simp add: number_ops)
  have len: "\<exists>r c lg. runDesignIteration (Some ex_hot) (Some ex_cold) ex_D [] = Inr (Rated r c lg)
        \<and> length lg \<le> 22"
  proof (cases "firstConverged ex_hot ex_cold ex_D (Fin 250800)
                  (fst (calculateLMTD ex_hot ex_cold (Fin 2))) (Fin 500)")
    case None
    then obtain r where "runDesignIteration (Some ex_hot) (Some ex_cold) ex_D [] =
        Inr (Rated r (Some False)
          ([] @ StartingDesign # iterLines ex_hot ex_cold ex_D (Fin 250800)
             (fst (calculateLMTD ex_hot ex_cold (Fin 2))) (Fin 500) 0 20 @ [MaxIterReached]))"
      using inst by blast
    then show ?thesis
      by (simp add: length_iterLines)
  next
    case (Some n)
    then have "runDesignIteration (Some ex_hot) (Some ex_cold) ex_D [] =
        Inr (Rated (trialRating ex_hot ex_cold ex_D (Fin 250800)
                 (fst (calculateLMTD ex_hot ex_cold (Fin 2)))
                 (assumedU ex_hot ex_cold ex_D (Fin 250800)
                    (fst (calculateLMTD ex_hot ex_cold (Fin 2))) (Fin 500) n)) (Some True)
          ([] @ StartingDesign # iterLines ex_hot ex_cold ex_D (Fin 250800)
             (fst (calculateLMTD ex_hot ex_cold (Fin 2))) (Fin 500) 0 (Suc n)))"
      and "n < 20"
      using inst by blast+
    then show ?thesis
      by (simp add: length_iterLines)
  qed
  have rel: "converges_at ex_hot ex_cold ex_D (Fin 250800)
          (fst (calculateLMTD ex_hot ex_cold (Fin 2))) (Fin 500) =
        (relativeError (Fin 500)
           (r_U_clean (trialRating ex_hot ex_cold ex_D (Fin 250800)
              (fst (calculateLMTD ex_hot ex_cold (Fin 2))) (Fin 500))) < Fin 0.1)"
    using inst pos by blast
  have none: "firstConverged ex_hot (ex_cold\<lparr>f_m := NaN\<rparr>) (merge_defaults ex_noflow_input) (Fin 250800)
        (fst (calculateLMTD ex_hot (ex_cold\<lparr>f_m := NaN\<rparr>) (Fin 2))) (Fin 500) = None"
    by (simp add: firstConverged_NaN)
  have len20: "length (iterLines ex_hot (ex_cold\<lparr>f_m := NaN\<rparr>) (merge_defaults ex_noflow_input) (Fin 250800)
        (fst (calculateLMTD ex_hot (ex_cold\<lparr>f_m := NaN\<rparr>) (Fin 2))) (Fin 500) 0 20) = 20"
    by (simp add: length_iterLines)
  from ex_D_simps(1) ex_D_simps(2) t len pos rel none len20 show ?thesis
    by (intro conjI)
qed

text \<open>
  C1 as stated fails on the example with the guess \<open>-500\<close>: the coefficient computed at
  the first iteration is positive, so the relative error \<open>|U_calc - U_guess| / U_guess\<close> is
  negative and within the 10% tolerance, but the loop tests \<open>|(U_calc - U_guess) / U_guess|\<close>,
  which exceeds 1: it does not stop there, and the call does not return the rating of that
  iteration as converged. The two tests also differ at a relative error of exactly 10%
  (a guess of 500 against a computed coefficient of 550): within the tolerance, yet the
  test of the loop fails.
\<close>

theorem negative_guess_and_exact_tolerance_counterexample:
  "withinTolerance (Fin (- 500))
     (r_U_clean (trialRating ex_hot ex_cold (merge_defaults ex_negative_guess_input) (Fin 250800)
        (fst (calculateLMTD ex_hot ex_cold (Fin 2))) (Fin (- 500))))
   \<and> \<not> converges_at ex_hot ex_cold (merge_defaults ex_negative_guess_input) (Fin 250800)
         (fst (calculateLMTD ex_hot ex_cold (Fin 2))) (Fin (- 500))
   \<and> calculateSTHX ex_negative_guess_input \<noteq>
       Inr (Rated (trialRating ex_hot ex_cold (merge_defaults ex_negative_guess_input) (Fin 250800)
                     (fst (calculateLMTD ex_hot ex_cold (Fin 2))) (Fin (- 500)))
              (Some True)
              [StartingDesign,
               iterLine ex_hot ex_cold (merge_defaults ex_negative_guess_input) (Fin 250800)
                 (fst (calculateLMTD ex_hot ex_cold (Fin 2))) 0 (Fin (- 500))])
   \<and> withinTolerance (Fin 500) (Fin 550)
   \<and> \<not> converged ((Fin 550 - Fin 500) div Fin 500)"
proof -
  have b1: "withinTolerance (Fin 500) (Fin 550)"
    by (simp add: withinTolerance_def relativeError_def number_ops jeq_def)
  have b2: "\<not> converged ((Fin 550 - Fin 500) div Fin 500)"
    by (simp add: converged_def number_ops)
  from negative_guess_test(1) [OF ex_neg_U_calc] ex_neg_not_converged ex_neg_result b1 b2
  show ?thesis by (intro conjI)
qed

text \<open>
  C2, as amended. When the loop has run its 20 iterations without converging
  (\<open>bestDesign\<close> is still \<open>null\<close>), the call does not fail: it returns a rating flagged
  \<open>converged = false\<close>, and the log holds the start line, exactly 20 iteration lines and
  the warning that the maximum was reached: 22 lines after those logged before.
\<close>

theorem exhausted_design_loop_returns_unconverged:
  assumes "hot D = Some h" and "cold D = Some c"
    and "Q = calculateDuty S T" and "truthy Q"
    and "L = fst (calculateLMTD h c (tube_passes D))"
    and "U0 = jor (parseFloat (U_guess D)) (Fin 500)"
    and "fst (designLoop S T D Q L 0 U0 (logs @ [StartingDesign])) = None"
  shows "(\<exists>r. runDesignIteration (Some S) (Some T) D logs =
              Inr (Rated r (Some False)
                     (logs @ StartingDesign # iterLines S T D Q L U0 0 20 @ [MaxIterReached])))
       \<and> length (iterLines S T D Q L U0 0 20) = 20
       \<and> result_converged (runDesignIteration (Some S) (Some T) D logs) = Some False
       \<and> map_option length (result_logs (runDesignIteration (Some S) (Some T) D logs))
           = Some (length logs + 22)"
  using runDesignIteration_exhausted [OF assms]
  by (simp add: length_iterLines result_converged_def result_logs_def)

theorem exhausted_design_loop_returns_unconverged_witness:
  "fst (designLoop ex_hot (ex_cold\<lparr>f_m := NaN\<rparr>) (merge_defaults ex_noflow_input) (Fin 250800)
          (fst (calculateLMTD ex_hot (ex_cold\<lparr>f_m := NaN\<rparr>) (Fin 2))) 0 (Fin 500)
          ([] @ [StartingDesign])) = None
   \<and> result_converged (runDesignIteration (Some ex_hot) (Some (ex_cold\<lparr>f_m := NaN\<rparr>))
                          (merge_defaults ex_noflow_input) []) = Some False
   \<and> map_option length (result_logs (runDesignIteration (Some ex_hot) (Some (ex_cold\<lparr>f_m := NaN\<rparr>))
                          (merge_defaults ex_noflow_input) [])) = Some 22"
proof -
  have n: "fst (designLoop ex_hot (ex_cold\<lparr>f_m := NaN\<rparr>) (merge_defaults ex_noflow_input) (Fin 250800)
          (fst (calculateLMTD ex_hot (ex_cold\<lparr>f_m := NaN\<rparr>) (Fin 2))) 0 (Fin 500)
          ([] @ [StartingDesign])) = None"
    by (simp add: designLoop_NaN)
  have t: "truthy (Fin 250800)" by (simp add: truthy_def)
  have l: "fst (calculateLMTD ex_hot (ex_cold\<lparr>f_m := NaN\<rparr>) (Fin 2))
           = fst (calculateLMTD ex_hot (ex_cold\<lparr>f_m := NaN\<rparr>) (tube_passes (merge_defaults ex_noflow_input)))"
    by (simp add: ex_noflow_simps)
  have u: "Fin 500 = jor (parseFloat (U_guess (merge_defaults ex_noflow_input))) (Fin 500)"
    by (simp add: ex_noflow_simps jor_def parseFloat_def)
  note inst = exhausted_design_loop_returns_unconverged
            [OF ex_noflow_simps(1) ex_noflow_simps(2) ex_noflow_duty [symmetric] t l u n]
  from inst have c: "result_converged (runDesignIteration (Some ex_hot) (Some (ex_cold\<lparr>f_m := NaN\<rparr>))
                          (merge_defaults ex_noflow_input) []) = Some False"
    by blast
  from inst have d: "map_option length (result_logs (runDesignIteration (Some ex_hot)
      (Some (ex_cold\<lparr>f_m := NaN\<rparr>)) (merge_defaults ex_noflow_input) []))
      = Some (length ([] :: log_line list) + 22)"
    by blast
  from n c d show ?thesis
    by (simp only: list.size add_0 simp_thms)
qed

text \<open>
  C2 as stated fails on the example with the tube-side mass flow left out: the result is
  flagged \<open>converged = false\<close>, its log has 22 lines, not 20, and its geometry is the
  fallback shell of 0.6 m, while the last candidate the loop computed had the 1.524 m
  shell.
\<close>

theorem exhausted_log_is_not_20_lines_counterexample:
  "result_converged (calculateSTHX ex_noflow_input) = Some False
   \<and> map_option length (result_logs (calculateSTHX ex_noflow_input)) = Some 22
   \<and> map_option (g_Ds \<circ> r_Geometry) (result_rating (calculateSTHX ex_noflow_input)) = Some (Fin 0.6)
   \<and> g_Ds (r_Geometry (trialRating ex_hot (ex_cold\<lparr>f_m := NaN\<rparr>) (merge_defaults ex_noflow_input)
        (Fin 250800) (fst (calculateLMTD ex_hot (ex_cold\<lparr>f_m := NaN\<rparr>) (Fin 2)))
        (assumedU ex_hot (ex_cold\<lparr>f_m := NaN\<rparr>) (merge_defaults ex_noflow_input)
           (Fin 250800) (fst (calculateLMTD ex_hot (ex_cold\<lparr>f_m := NaN\<rparr>) (Fin 2))) (Fin 500) 19)))
       = Fin 1.524"
proof -
  have 19: "(19::nat) = Suc 18" by simp
  have "assumedU ex_hot (ex_cold\<lparr>f_m := NaN\<rparr>) (merge_defaults ex_noflow_input)
           (Fin 250800) (fst (calculateLMTD ex_hot (ex_cold\<lparr>f_m := NaN\<rparr>) (Fin 2))) (Fin 500) 19 = NaN"
    unfolding 19 by (rule assumedU_NaN) simp
  then show ?thesis
    by (simp add: noflow_result result_converged_def result_logs_def result_rating_def
        length_iterLines rating_Ds trialRating_def trialShell_NaN trialGeometry_def)
qed

text \<open>
  C3, as amended. A design the optimizer returns is a rated candidate that meets the
  velocity and pressure-drop constraints, and its required area is the minimum over the
  rated candidates that meet them: strictly below the area of every such candidate rated
  before it (the pair enumerated first wins a tie) and at most the area of every one
  rated after it. When the input passes validation and no rated pair meets the
  constraints, the call returns the error \<open>NoFeasibleDesign\<close> with the log; when one
  meets them with a required area below \<open>Infinity\<close>, the call returns a design; and
  when none of those that meet them has a required area below \<open>Infinity\<close>, the call
  returns \<open>NoFeasibleDesign\<close> again. The rated candidates are those of the pairs
  (inner, outer) with the inner pipe first in the catalog that the clearance check does
  not skip.
\<close>

theorem optimizer_returns_first_minimum_area:
  "(\<forall>d lg. calculateDPHX (Some data) = Inr (Success d lg) \<longrightarrow>
      (\<exists>E xs ys. validate data = Inr E \<and> lg = map trialLine (trials E)
          \<and> trials E = xs @ d # ys \<and> feasible E d
          \<and> (\<forall>c \<in> set xs. feasible E c \<longrightarrow> o_A_req d < o_A_req c)
          \<and> (\<forall>c \<in> set ys. feasible E c \<longrightarrow> o_A_req d \<le> o_A_req c)))
   \<and> (\<forall>E. validate data = Inr E \<and> (\<forall>c \<in> set (trials E). \<not> feasible E c) \<longrightarrow>
         calculateDPHX (Some data) = Inr (DError NoFeasibleDesign (Some (map trialLine (trials E)))))
   \<and> (\<forall>E c. validate data = Inr E \<and> c \<in> set (trials E) \<and> feasible E c \<and> o_A_req c < PInf \<longrightarrow>
         (\<exists>d. calculateDPHX (Some data) = Inr (Success d (map trialLine (trials E)))))
   \<and> (\<forall>E. validate data = Inr E
           \<and> (\<forall>c \<in> set (trials E). feasible E c \<longrightarrow> \<not> o_A_req c < PInf) \<longrightarrow>
         calculateDPHX (Some data) = Inr (DError NoFeasibleDesign (Some (map trialLine (trials E)))))"
proof (intro conjI allI impI)
  fix d lg
  assume "calculateDPHX (Some data) = Inr (Success d lg)"
  then obtain E where E: "validate data = Inr E" "optimize E = Success d lg"
    using calculateDPHX_SuccessD by blast
  from optimize_Success [OF E(2)] E(1)
  show "\<exists>E xs ys. validate data = Inr E \<and> lg = map trialLine (trials E)
          \<and> trials E = xs @ d # ys \<and> feasible E d
          \<and> (\<forall>c \<in> set xs. feasible E c \<longrightarrow> o_A_req d < o_A_req c)
          \<and> (\<forall>c \<in> set ys. feasible E c \<longrightarrow> o_A_req d \<le> o_A_req c)"
    by blast
next
  fix E
  assume "validate data = Inr E \<and> (\<forall>c \<in> set (trials E). \<not> feasible E c)"
  then show "calculateDPHX (Some data) = Inr (DError NoFeasibleDesign (Some (map trialLine (trials E))))"
    by (simp add: calculateDPHX_valid optimize_none_feasible)
next
  fix E c
  assume "validate data = Inr E \<and> c \<in> set (trials E) \<and> feasible E c \<and> o_A_req c < PInf"
  then show "\<exists>d. calculateDPHX (Some data) = Inr (Success d (map trialLine (trials E)))"
    using optimize_some_feasible [of c E] by (auto simp: calculateDPHX_valid)
next
  fix E
  assume a: "validate data = Inr E
           \<and> (\<forall>c \<in> set (trials E). feasible E c \<longrightarrow> \<not> o_A_req c < PInf)"
  then have "optimize E = DError NoFeasibleDesign (Some (map trialLine (trials E)))"
    by (intro optimize_no_finite_area) blast
  with a show "calculateDPHX (Some data) = Inr (DError NoFeasibleDesign (Some (map trialLine (trials E))))"
    by (simp add: calculateDPHX_valid)
qed

theorem optimizer_returns_first_minimum_area_witness:
  "calculateDPHX (Some ex_dp) =
     Inr (Success (evalPair ex_dp_env (STANDARD_PIPES ! 0) (STANDARD_PIPES ! 2))
            (map trialLine (trials ex_dp_env)))
   \<and> (\<exists>xs ys. trials ex_dp_env = xs @ evalPair ex_dp_env (STANDARD_PIPES ! 0) (STANDARD_PIPES ! 2) # ys
         \<and> feasible ex_dp_env (evalPair ex_dp_env (STANDARD_PIPES ! 0) (STANDARD_PIPES ! 2)))
   \<and> validate ex_dp_blank = Inr ex_dp_blank_env
   \<and> calculateDPHX (Some ex_dp_blank) =
       Inr (DError NoFeasibleDesign (Some (map trialLine (trials ex_dp_blank_env))))"
proof -
  have "\<forall>d lg. calculateDPHX (Some ex_dp) = Inr (Success d lg) \<longrightarrow>
      (\<exists>E xs ys. validate ex_dp = Inr E \<and> lg = map trialLine (trials E)
          \<and> trials E = xs @ d # ys \<and> feasible E d
          \<and> (\<forall>c \<in> set xs. feasible E c \<longrightarrow> o_A_req d < o_A_req c)
          \<and> (\<forall>c \<in> set ys. feasible E c \<longrightarrow> o_A_req d \<le> o_A_req c))"
    using optimizer_returns_first_minimum_area [of ex_dp] by (rule conjunct1)
  then have "\<exists>E xs ys. validate ex_dp = Inr E
          \<and> map trialLine (trials ex_dp_env) = map trialLine (trials E)
          \<and> trials E = xs @ evalPair ex_dp_env (STANDARD_PIPES ! 0) (STANDARD_PIPES ! 2) # ys
          \<and> feasible E (evalPair ex_dp_env (STANDARD_PIPES ! 0) (STANDARD_PIPES ! 2))
          \<and> (\<forall>c \<in> set xs. feasible E c \<longrightarrow>
                o_A_req (evalPair ex_dp_env (STANDARD_PIPES ! 0) (STANDARD_PIPES ! 2)) < o_A_req c)
          \<and> (\<forall>c \<in> set ys. feasible E c \<longrightarrow>
                o_A_req (evalPair ex_dp_env (STANDARD_PIPES ! 0) (STANDARD_PIPES ! 2)) \<le> o_A_req c)"
    using ex_dp_result by (elim allE impE) assumption+
  then obtain E xs ys where E: "validate ex_dp = Inr E"
      "trials E = xs @ evalPair ex_dp_env (STANDARD_PIPES ! 0) (STANDARD_PIPES ! 2) # ys"
      "feasible E (evalPair ex_dp_env (STANDARD_PIPES ! 0) (STANDARD_PIPES ! 2))"
    by auto
  then have "E = ex_dp_env"
    by (simp add: ex_dp_validate)
  with E have a: "\<exists>xs ys. trials ex_dp_env = xs @ evalPair ex_dp_env (STANDARD_PIPES ! 0) (STANDARD_PIPES ! 2) # ys
         \<and> feasible ex_dp_env (evalPair ex_dp_env (STANDARD_PIPES ! 0) (STANDARD_PIPES ! 2))"
    by blast
  have "\<forall>E. validate ex_dp_blank = Inr E \<and> (\<forall>c \<in> set (trials E). \<not> feasible E c) \<longrightarrow>
         calculateDPHX (Some ex_dp_blank) = Inr (DError NoFeasibleDesign (Some (map trialLine (trials E))))"
    using optimizer_returns_first_minimum_area [of ex_dp_blank] by (elim conjE) assumption
  then have b: "calculateDPHX (Some ex_dp_blank) =
       Inr (DError NoFeasibleDesign (Some (map trialLine (trials ex_dp_blank_env))))"
    using ex_dp_blank_validate ex_dp_blank_infeasible by blast
  from ex_dp_result a ex_dp_blank_validate b show ?thesis
    by (intro conjI)
qed

text \<open>
  C3 as stated fails on the example with the densities \<open>-1000\<close> and an infinite fouling
  resistance on the hot side: the velocities are negative, hence below 4, and the pressure
  drops are negative, hence below the limit, so the first rated pair (and every other)
  meets the constraints; but every required area is \<open>Infinity\<close>, which is not strictly
  below the initial \<open>Infinity\<close> of the search, and the call returns \<open>NoFeasibleDesign\<close>.
\<close>

theorem feasible_pairs_yet_no_design_counterexample:
  "evalPair ex_dp_negative_env (STANDARD_PIPES ! 0) (STANDARD_PIPES ! 2)
     \<in> set (trials ex_dp_negative_env)
   \<and> feasible ex_dp_negative_env
        (evalPair ex_dp_negative_env (STANDARD_PIPES ! 0) (STANDARD_PIPES ! 2))
   \<and> calculateDPHX (Some ex_dp_negative) =
        Inr (DError NoFeasibleDesign (Some (map trialLine (trials ex_dp_negative_env))))"
  using first_trial ex_negative_first ex_dp_negative_result by (intro conjI)

text \<open>
  C4, as amended. Every pair that passes the clearance check of 5 mm is rated and
  logged, in the order of the loops, whether it meets the constraints or not; the pairs
  the check skips are not logged. So a log the optimizer returns, with a design or with
  the error \<open>NoFeasibleDesign\<close>, has as many lines as there are pairs with the inner
  pipe first in the catalog and a clearance of at least 5 mm: 38 for the catalog of the
  code.
\<close>

theorem trial_log_holds_every_rated_pair:
  "snd (snd (search E (pairs STANDARD_PIPES))) = map trialLine (trials E)
   \<and> length (trials E) = length enumerated
   \<and> length enumerated = 38
   \<and> (\<forall>msg lg. calculateDPHX (Some data) = Inr (DError msg (Some lg)) \<longrightarrow>
         msg = NoFeasibleDesign \<and> length lg = length enumerated)
   \<and> (\<forall>d lg. calculateDPHX (Some data) = Inr (Success d lg) \<longrightarrow> length lg = length enumerated)"
proof -
  have 1: "snd (snd (search E (pairs STANDARD_PIPES))) = map trialLine (trials E)"
    by (simp add: search_trials select_logs)
  have 2: "length (trials E) = length enumerated"
    by (simp add: trials_def)
  have 3: "\<forall>msg lg. calculateDPHX (Some data) = Inr (DError msg (Some lg)) \<longrightarrow>
         msg = NoFeasibleDesign \<and> length lg = length enumerated"
  proof (intro allI impI)
    fix msg lg
    assume "calculateDPHX (Some data) = Inr (DError msg (Some lg))"
    then obtain E' where "optimize E' = DError msg (Some lg)"
      using calculateDPHX_logsD by blast
    from optimize_DError [OF this]
    show "msg = NoFeasibleDesign \<and> length lg = length enumerated"
      by (simp add: trials_def)
  qed
  have 4: "\<forall>d lg. calculateDPHX (Some data) = Inr (Success d lg) \<longrightarrow> length lg = length enumerated"
  proof (intro allI impI)
    fix d lg
    assume "calculateDPHX (Some data) = Inr (Success d lg)"
    then obtain E' where "optimize E' = Success d lg"
      using calculateDPHX_SuccessD by blast
    from optimize_Success [OF this]
    show "length lg = length enumerated"
      by (simp add: trials_def)
  qed
  show ?thesis
    by (rule conjI [OF 1 conjI [OF 2 conjI [OF length_enumerated conjI [OF 3 4]]]])
qed

theorem trial_log_holds_every_rated_pair_witness:
  "calculateDPHX (Some ex_dp_blank) =
       Inr (DError NoFeasibleDesign (Some (map trialLine (trials ex_dp_blank_env))))
   \<and> length (map trialLine (trials ex_dp_blank_env)) = 38"
proof -
  have r: "calculateDPHX (Some ex_dp_blank) =
       Inr (DError NoFeasibleDesign (Some (map trialLine (trials ex_dp_blank_env))))"
    by (rule ex_dp_blank_result)
  then have "length (map trialLine (trials ex_dp_blank_env)) = length enumerated"
    using trial_log_holds_every_rated_pair [of ex_dp_blank_env ex_dp_blank] by blast
  moreover have "length enumerated = 38"
    using trial_log_holds_every_rated_pair [of ex_dp_blank_env ex_dp_blank] by blast
  ultimately show ?thesis using r by simp
qed


text \<open>
  C4 as stated fails on the example with the hot inlet temperature left out: the search
  fails with \<open>NoFeasibleDesign\<close> and its log has 38 lines, while the catalog has 45
  pairs with the inner pipe strictly smaller than the outer one.
\<close>

theorem trial_log_shorter_than_pair_count_counterexample:
  "calculateDPHX (Some ex_dp_blank) =
       Inr (DError NoFeasibleDesign (Some (map trialLine (trials ex_dp_blank_env))))
   \<and> length (map trialLine (trials ex_dp_blank_env)) = 38
   \<and> length (pairs STANDARD_PIPES) = 45"
  by (simp add: ex_dp_blank_result length_trials length_pairs_STANDARD)

text \<open>
  C5 at two inputs where the duty cannot be computed from the streams. In design mode of
  the shell-and-tube calculator, with both outlet temperatures left out,
  \<open>calculateDuty\<close> returns its placeholder 100000, so the test for a missing duty
  passes and the call returns a rating. In the optimizer, with both mass flows and no
  outlet temperature, the balance takes the marker -1 of the cold outlet for a
  temperature (a duty of -219450 W, a hot outlet of 106.25 degrees), and the search
  runs: the call returns a log of 38 trials.
\<close>

theorem underspecified_duty_is_not_rejected:
  "calculateDuty (ex_hot\<lparr>f_Tout := NaN\<rparr>) (ex_cold\<lparr>f_Tout := NaN\<rparr>) = Fin 100000
   \<and> result_rating (calculateSTHX ex_no_outlets_input) \<noteq> None
   \<and> energyBalance ex_dp_no_outlets =
       Inr \<lparr>b_m_h = Fin 2, b_m_c = Fin 2.5, b_T_h_out = Fin 106.25, b_T_c_out = Fin (- 1),
            b_Q = Fin (- 219450)\<rparr>
   \<and> map_option length (dphx_logs (calculateDPHX (Some ex_dp_no_outlets))) = Some 38"
  using ex_no_outlets_duty ex_no_outlets_rated ex_dp_no_outlets_balance ex_dp_no_outlets_searched
  by (intro conjI)

text \<open>
  C6 at the temperatures 80 to 60 against 40 to 60, where both differences are 20:
  \<open>calculateLMTD\<close> of the shell-and-tube calculator divides 0 by \<open>Math.log(1) = 0\<close>
  and returns NaN, while the two double-pipe calculators return 20.
\<close>

theorem sthx_lmtd_of_equal_differences_is_NaN:
  "fst (calculateLMTD (ex_hot\<lparr>f_Tout := Fin 60\<rparr>) (ex_cold\<lparr>f_Tin := Fin 40, f_Tout := Fin 60\<rparr>) (Fin 2))
     = NaN
   \<and> lmtd_dphx (Fin 20) (Fin 20) = Inr (Fin 20)
   \<and> lmtd_v2 (Fin 20) (Fin 20) = Inr (Fin 20)"
proof -
  have "fst (calculateLMTD (ex_hot\<lparr>f_Tout := Fin 60\<rparr>) (ex_cold\<lparr>f_Tin := Fin 40, f_Tout := Fin 60\<rparr>) (Fin 2))
     = NaN"
    by (rule calculateLMTD_equal [where x = 20]) (simp_all add: ex_hot_def ex_cold_def number_ops)
  then show ?thesis
    by (simp add: lmtd_dphx_equal lmtd_v2_equal)
qed


text \<open>
  C7, as amended. The rating computes no check of its Reynolds and Prandtl numbers:
  \<open>performKernRating\<close> returns a result object whatever the fluids and the geometry,
  and rating mode returns it with the log. A mass flow that is NaN gives NaN for the
  Reynolds number and the clean coefficient of the returned object. In the optimizer a
  candidate whose inner pressure drop is NaN does not meet the constraints.
\<close>

theorem rating_has_no_validity_check:
  "runRatingCalculation (Some S) (Some T) G logs =
     Inr (Rated (performKernRating S T G) None (logs @ [RunningRating]))
   \<and> (f_m T = NaN \<longrightarrow>
         r_Re_t (performKernRating S T G) = NaN \<and> r_U_clean (performKernRating S T G) = NaN)
   \<and> (o_dP_in d = NaN \<longrightarrow> \<not> feasible E d)"
  by (simp add: runRatingCalculation_def Re_t_NaN U_clean_NaN dP_in_NaN_infeasible)

theorem rating_has_no_validity_check_witness:
  "runRatingCalculation (Some ex_hot) (Some (ex_cold\<lparr>f_m := NaN\<rparr>)) ex_D [] =
     Inr (Rated (performKernRating ex_hot (ex_cold\<lparr>f_m := NaN\<rparr>) ex_D) None [RunningRating])
   \<and> r_Re_t (performKernRating ex_hot (ex_cold\<lparr>f_m := NaN\<rparr>) ex_D) = NaN
   \<and> r_U_clean (performKernRating ex_hot (ex_cold\<lparr>f_m := NaN\<rparr>) ex_D) = NaN"
  using rating_has_no_validity_check [of ex_hot "ex_cold\<lparr>f_m := NaN\<rparr>" ex_D "[]"]
  by simp


text \<open>
  C7 as stated fails in rating mode with no flow on the tube side: the call returns a
  rating, not a failure, whose tube-side Reynolds number and film coefficient are 0
  and whose tube-side pressure drop is NaN.
\<close>

theorem zero_flow_rating_is_returned_counterexample:
  "calculateSTHX ex_zero_flow_input =
     Inr (Rated (performKernRating ex_hot (ex_cold\<lparr>f_m := Fin 0\<rparr>)
                   (merge_defaults ex_zero_flow_input)) None [RunningRating])
   \<and> r_Re_t (performKernRating ex_hot (ex_cold\<lparr>f_m := Fin 0\<rparr>) (merge_defaults ex_zero_flow_input)) = Fin 0
   \<and> r_h_t (performKernRating ex_hot (ex_cold\<lparr>f_m := Fin 0\<rparr>) (merge_defaults ex_zero_flow_input)) = Fin 0
   \<and> r_dP_t (performKernRating ex_hot (ex_cold\<lparr>f_m := Fin 0\<rparr>) (merge_defaults ex_zero_flow_input)) = NaN"
  using ex_zero_flow_result ex_zero_flow_fields by (intro conjI)

text \<open>
  C8 at an input without the objects \<open>hot\<close> and \<open>cold\<close>: the calculator with the
  design and rating modes has no \<open>try\<close> block, and the TypeError of reading
  \<open>Hot.m\<close> escapes to the caller. The optimizer, whose body is inside \<open>try\<close>,
  never throws: on \<open>null\<close> or no argument it returns the error object.
\<close>

theorem design_calculator_lets_TypeError_escape:
  "calculateSTHX ex_no_fluids_input = Inl TypeError
   \<and> calculateDPHX None = Inr (DError ''TypeError'' None)
   \<and> (\<forall>arg e. calculateDPHX arg \<noteq> Inl e)"
  by (simp add: calculateDPHX_never_throws)
     (simp add: calculateSTHX_def Let_def dispatchMode_def runDesignIteration_def
        calculateDuty_opt_def merge_defaults_def ex_no_fluids_input_def ex_input_def
        calculateDPHX_def dphx_body_def exn_toString_def)

text \<open>
  C9. A candidate is accepted exactly when both velocities are below the literal 4.0
  and both pressure drops are below one limit: \<open>allowable_dp_inner\<close> of the input, or
  70000 when that is absent (or otherwise falsy). A design the optimizer returns meets
  these four bounds. The optimizer reads no other limit: a value of
  \<open>allowable_dp_ann\<close> in the input changes nothing of what it returns.
\<close>

theorem velocity_limit_fixed_pressure_limit_shared:
  "feasible E d =
     (o_v_in d < Fin 4 \<and> o_v_ann d < Fin 4
      \<and> o_dP_in d < max_dp (e_data E) \<and> o_dP_ann d < max_dp (e_data E))
   \<and> max_dp data =
       (if truthy (d_allowable_dp_inner data) then d_allowable_dp_inner data else Fin 70000)
   \<and> max_dp (data\<lparr>d_allowable_dp_inner := NaN\<rparr>) = Fin 70000
   \<and> calculateDPHX (Some (data\<lparr>d_allowable_dp_ann := x\<rparr>)) = calculateDPHX (Some data)
   \<and> (\<forall>b lg. calculateDPHX (Some data) = Inr (Success b lg) \<longrightarrow>
         o_v_in b < Fin 4 \<and> o_v_ann b < Fin 4
         \<and> o_dP_in b < max_dp data \<and> o_dP_ann b < max_dp data)"
proof -
  have 1: "feasible E d =
     (o_v_in d < Fin 4 \<and> o_v_ann d < Fin 4
      \<and> o_dP_in d < max_dp (e_data E) \<and> o_dP_ann d < max_dp (e_data E))"
    by (auto simp: feasible_def velocity_ok_def dp_ok_def)
  have 2: "max_dp data =
       (if truthy (d_allowable_dp_inner data) then d_allowable_dp_inner data else Fin 70000)"
    by (simp add: max_dp_def jor_def parseFloat_def)
  have 3: "max_dp (data\<lparr>d_allowable_dp_inner := NaN\<rparr>) = Fin 70000"
    by (simp add: max_dp_def jor_def parseFloat_def truthy_def)
  have 5: "\<forall>b lg. calculateDPHX (Some data) = Inr (Success b lg) \<longrightarrow>
         o_v_in b < Fin 4 \<and> o_v_ann b < Fin 4
         \<and> o_dP_in b < max_dp data \<and> o_dP_ann b < max_dp data"
  proof (intro allI impI)
    fix b lg
    assume "calculateDPHX (Some data) = Inr (Success b lg)"
    then obtain E' where E': "validate data = Inr E'" "optimize E' = Success b lg"
      using calculateDPHX_SuccessD by blast
    then have "feasible E' b" "e_data E' = data"
      using optimize_Success [OF E'(2)] validate_data by auto
    then show "o_v_in b < Fin 4 \<and> o_v_ann b < Fin 4
         \<and> o_dP_in b < max_dp data \<and> o_dP_ann b < max_dp data"
      by (auto simp: feasible_def velocity_ok_def dp_ok_def)
  qed
  show ?thesis
    by (rule conjI [OF 1 conjI [OF 2 conjI [OF 3 conjI [OF calculateDPHX_ann 5]]]])
qed

theorem velocity_limit_fixed_pressure_limit_shared_witness:
  "calculateDPHX (Some ex_dp) =
     Inr (Success (evalPair ex_dp_env (STANDARD_PIPES ! 0) (STANDARD_PIPES ! 2))
            (map trialLine (trials ex_dp_env)))
   \<and> o_v_in (evalPair ex_dp_env (STANDARD_PIPES ! 0) (STANDARD_PIPES ! 2)) < Fin 4
   \<and> o_v_ann (evalPair ex_dp_env (STANDARD_PIPES ! 0) (STANDARD_PIPES ! 2)) < Fin 4
   \<and> o_dP_in (evalPair ex_dp_env (STANDARD_PIPES ! 0) (STANDARD_PIPES ! 2)) < Fin 70000
   \<and> o_dP_ann (evalPair ex_dp_env (STANDARD_PIPES ! 0) (STANDARD_PIPES ! 2)) < Fin 70000"
proof -
  have "\<forall>b lg. calculateDPHX (Some ex_dp) = Inr (Success b lg) \<longrightarrow>
         o_v_in b < Fin 4 \<and> o_v_ann b < Fin 4
         \<and> o_dP_in b < max_dp ex_dp \<and> o_dP_ann b < max_dp ex_dp"
    by (rule velocity_limit_fixed_pressure_limit_shared
          [where data = ex_dp, THEN conjunct2, THEN conjunct2, THEN conjunct2, THEN conjunct2])
  then have "o_v_in (evalPair ex_dp_env (STANDARD_PIPES ! 0) (STANDARD_PIPES ! 2)) < Fin 4
     \<and> o_v_ann (evalPair ex_dp_env (STANDARD_PIPES ! 0) (STANDARD_PIPES ! 2)) < Fin 4
     \<and> o_dP_in (evalPair ex_dp_env (STANDARD_PIPES ! 0) (STANDARD_PIPES ! 2)) < max_dp ex_dp
     \<and> o_dP_ann (evalPair ex_dp_env (STANDARD_PIPES ! 0) (STANDARD_PIPES ! 2)) < max_dp ex_dp"
    using ex_dp_result by blast
  moreover have "max_dp ex_dp = Fin 70000"
    by (simp add: max_dp_def ex_dp_def jor_def parseFloat_def truthy_def)
  ultimately show ?thesis
    using ex_dp_result by (simp only: simp_thms)
qed

text \<open>
  C10. In an iteration whose estimated shell diameter exceeds every entry of the TEMA
  shell list, the loop takes the last entry, 60 inches = 1.524 m: that shell is rated,
  and the log line of the iteration shows it (1524 mm) as it shows any other shell.
\<close>

theorem shell_overflow_substitutes_largest:
  assumes "\<forall>s \<in> set TEMA_shells. s < estimateShell D Q LMTD U"
  shows "trialShell D Q LMTD U = Fin 1.524
       \<and> trialRating S T D Q LMTD U =
           performKernRating S T
             (D\<lparr>shell_ID := Fin 1.524,
                total_tubes := jfloor (Fin 0.785 * jpow (Fin 1.524 div tube_pitch D) 2),
                baffle_spacing := Fin 1.524 * Fin 0.4\<rparr>)
       \<and> iterLine S T D Q LMTD i U =
           Iter (i + 1) U (Fin 1524) (r_U_clean (trialRating S T D Q LMTD U))
             (trialError S T D Q LMTD U * Fin 100)"
  using standardShell_overflow [OF assms]
  by (simp add: trialShell_def trialRating_def trialGeometry_def iterLine_def number_ops)

theorem shell_overflow_substitutes_largest_witness:
  "last TEMA_shells < estimateShell ex_D (Fin 1000000000) (Fin 30) (Fin 500)
   \<and> trialShell ex_D (Fin 1000000000) (Fin 30) (Fin 500) = Fin 1.524"
proof -
  have "last TEMA_shells \<in> set TEMA_shells"
    by (simp add: TEMA_shells_def)
  then show ?thesis
    using ex_big_exceeds shell_overflow_substitutes_largest [OF ex_big_exceeds]
    by blast
qed

end
